theory Spec2Isabelle
  imports Main
begin

section \<open>The development watch supervisor (ci/dev/watch.ts)\<close>

text \<open>
  The supervisor spawns the build watchers, registers listeners on them and on its own
  process, and then only reacts to events. The model is a state machine: the state holds
  the store of child-process objects (with the listeners registered on each emitter), the
  variables captured by the closures of \<open>watch\<close>, and the trace of everything the
  supervisor did to the outside world, in order.
\<close>

subsection \<open>Strings\<close>

definition nl :: string where
  "nl = [CHR 0x0A]"

text \<open>\<open>String.prototype.includes\<close>: the argument occurs as a contiguous substring.\<close>

fun includes_str :: "string \<Rightarrow> string \<Rightarrow> bool" where
  "includes_str [] sub = (sub = [])"
| "includes_str (x # xs) sub = (take (length sub) (x # xs) = sub \<or> includes_str xs sub)"

text \<open>
  \<open>String.prototype.trim\<close> on a byte string: the ASCII white space and line terminators
  (TAB, LF, VT, FF, CR, SP) are removed at both ends.
\<close>

definition is_space :: "char \<Rightarrow> bool" where
  "is_space ch = (ch \<in> set [CHR 0x09, CHR 0x0A, CHR 0x0B, CHR 0x0C, CHR 0x0D, CHR 0x20])"

definition trim :: "string \<Rightarrow> string" where
  "trim s = rev (dropWhile is_space (rev (dropWhile is_space s)))"

text \<open>A process identifier inside a template literal: its decimal digits.\<close>

fun show_nat :: "nat \<Rightarrow> string" where
  "show_nat n =
     (if n < 10 then [char_of (48 + n)]
      else show_nat (n div 10) @ [char_of (48 + n mod 10)])"

declare show_nat.simps [simp del]

subsection \<open>Data model\<close>

type_synonym handle = nat

datatype signal = SIGINT | SIGTERM

text \<open>
  The closures registered as listeners, one constructor per arrow function of the source:
  the exit listener of a forked server (line 34), the exit listeners of the four watchers
  (lines 79-99), the stderr forwarders (lines 101-107) and the three \<open>onLine\<close> callbacks
  (lines 109-136).
\<close>

datatype exit_listener =
    ServerExited handle
  | VscodeTerminated
  | WebExtTerminated
  | TscTerminated
  | PluginTerminated

datatype data_listener = StderrForward

datatype line_listener = VscodeLine | TscLine | PluginLine

text \<open>What the supervisor does to the outside world.\<close>

datatype effect =
    StdoutWrite string
  | StderrWrite string
  | Spawn handle string "string list" string
  | Fork handle string "string list"
  | Kill handle
  | RemoveAllListeners handle
  | ProcessExit int

text \<open>
  A \<open>ChildProcess\<close> object: three emitters (the object itself, its stdout, its stderr),
  each with its own listeners, and the number of termination requests it received.
\<close>

record proc =
  pid :: nat
  exit_listeners :: "exit_listener list"
  stdout_listeners :: "line_listener list"
  stderr_listeners :: "data_listener list"
  kills :: nat

text \<open>
  What the supervisor is started with: \<open>process.argv\<close>, \<open>process.env.PLUGIN_DIR\<close>,
  the resolved root path, the \<open>path.join\<close> of the platform (separator and
  normalisation are the platform's, so it is taken as given), and the process identifier
  the operating system gives to each child.
\<close>

record config =
  argv :: "string list"
  PLUGIN_DIR :: "string option"
  rootPath :: string
  path_join :: "string \<Rightarrow> string \<Rightarrow> string"
  os_pid :: "handle \<Rightarrow> nat"

definition vscodeSourcePath :: "config \<Rightarrow> string" where
  "vscodeSourcePath c = path_join c (rootPath c) ''vendor/modules/code-oss-dev''"

text \<open>
  The state: the store, the variables of \<open>watch\<close> (\<open>server\<close> is the only one assigned
  more than once), the listeners on \<open>process\<close>, the trace, and the exit code once
  \<open>process.exit\<close> has been called.
\<close>

record state =
  procs :: "proc list"
  server :: "handle option"
  vscode :: handle
  vscodeWebExtensions :: handle
  tsc :: handle
  plugin :: "handle option"
  signal_listeners :: "signal list"
  effects :: "effect list"
  exited :: "int option"

subsection \<open>Primitives of the runtime\<close>

definition upd_proc :: "handle \<Rightarrow> (proc \<Rightarrow> proc) \<Rightarrow> state \<Rightarrow> state" where
  "upd_proc h f s =
     (if h < length (procs s) then s\<lparr>procs := (procs s)[h := f (procs s ! h)]\<rparr> else s)"

definition emit_effect :: "effect \<Rightarrow> state \<Rightarrow> state" where
  "emit_effect e s = s\<lparr>effects := effects s @ [e]\<rparr>"

definition new_proc :: "config \<Rightarrow> handle \<Rightarrow> proc" where
  "new_proc c h = \<lparr>pid = os_pid c h, exit_listeners = [], stdout_listeners = [],
     stderr_listeners = [], kills = 0\<rparr>"

text \<open>
  \<open>cp.spawn\<close> and \<open>cp.fork\<close> create a new object in the store and return it; the
  effect records how the child was started.
\<close>

definition add_proc :: "config \<Rightarrow> effect \<Rightarrow> state \<Rightarrow> state" where
  "add_proc c e s = emit_effect e (s\<lparr>procs := procs s @ [new_proc c (length (procs s))]\<rparr>)"

definition spawn :: "config \<Rightarrow> string \<Rightarrow> string list \<Rightarrow> string \<Rightarrow> state \<Rightarrow> handle \<times> state" where
  "spawn c cmd args cwd s =
     (let h = length (procs s) in (h, add_proc c (Spawn h cmd args cwd) s))"

definition fork :: "config \<Rightarrow> string \<Rightarrow> string list \<Rightarrow> state \<Rightarrow> handle \<times> state" where
  "fork c modulePath args s =
     (let h = length (procs s) in (h, add_proc c (Fork h modulePath args) s))"

text \<open>\<open>kill\<close> sends the signal and touches no listener.\<close>

definition kill :: "handle \<Rightarrow> state \<Rightarrow> state" where
  "kill h s = emit_effect (Kill h) (upd_proc h (\<lambda>p. p\<lparr>kills := Suc (kills p)\<rparr>) s)"

text \<open>\<open>removeAllListeners\<close> empties the emitter it is called on: the child-process object.\<close>

definition removeAllListeners :: "handle \<Rightarrow> state \<Rightarrow> state" where
  "removeAllListeners h s =
     emit_effect (RemoveAllListeners h) (upd_proc h (\<lambda>p. p\<lparr>exit_listeners := []\<rparr>) s)"

definition on_exit :: "handle \<Rightarrow> exit_listener \<Rightarrow> state \<Rightarrow> state" where
  "on_exit h l s = upd_proc h (\<lambda>p. p\<lparr>exit_listeners := exit_listeners p @ [l]\<rparr>) s"

definition on_stderr_data :: "handle \<Rightarrow> data_listener \<Rightarrow> state \<Rightarrow> state" where
  "on_stderr_data h l s = upd_proc h (\<lambda>p. p\<lparr>stderr_listeners := stderr_listeners p @ [l]\<rparr>) s"

definition process_on :: "signal \<Rightarrow> state \<Rightarrow> state" where
  "process_on sg s = s\<lparr>signal_listeners := signal_listeners s @ [sg]\<rparr>"

definition pid_of :: "handle \<Rightarrow> state \<Rightarrow> nat" where
  "pid_of h s = (if h < length (procs s) then pid (procs s ! h) else 0)"

text \<open>\<open>console.log\<close> of strings: one write, the arguments separated by a space, a newline.\<close>

fun unwords :: "string list \<Rightarrow> string" where
  "unwords [] = []"
| "unwords [a] = a"
| "unwords (a # b # rest) = a @ '' '' @ unwords (b # rest)"

definition console_log :: "string list \<Rightarrow> state \<Rightarrow> state" where
  "console_log args s = emit_effect (StdoutWrite (unwords args @ nl)) s"

definition stderr_write :: "string \<Rightarrow> state \<Rightarrow> state" where
  "stderr_write d s = emit_effect (StderrWrite d) s"

text \<open>\<open>process.exit\<close>: nothing of the supervisor runs after it.\<close>

definition process_exit :: "int \<Rightarrow> state \<Rightarrow> state" where
  "process_exit n s = (emit_effect (ProcessExit n) s)\<lparr>exited := Some n\<rparr>"

text \<open>
  Modelled from the spec: \<open>onLine\<close> of src/node/util, which is not among the sources. The
  Line Reader "wraps a process's output stream and invokes a callback once per
  newline-delimited chunk, providing both the trimmed line and the original raw text".
  Registering a callback adds it to the stdout emitter of the process; \<open>onLine_args\<close> is
  the pair a callback receives for a chunk.
\<close>

definition onLine :: "handle \<Rightarrow> line_listener \<Rightarrow> state \<Rightarrow> state" where
  "onLine h l s = upd_proc h (\<lambda>p. p\<lparr>stdout_listeners := stdout_listeners p @ [l]\<rparr>) s"

definition onLine_args :: "string \<Rightarrow> string \<times> string" where
  "onLine_args chunk = (trim chunk, chunk)"

subsection \<open>Watcher\<close>

text \<open>\<open>Watcher.log\<close> (lines 19-24): the message, then the newline as a second write.\<close>

definition log :: "string \<Rightarrow> bool \<Rightarrow> state \<Rightarrow> state" where
  "log message skipNewline s =
     (let s1 = emit_effect (StdoutWrite message) s
      in if \<not> skipNewline then emit_effect (StdoutWrite nl) s1 else s1)"

text \<open>\<open>restartServer\<close> (lines 28-36).\<close>

definition restartServer :: "config \<Rightarrow> state \<Rightarrow> state" where
  "restartServer c s0 =
     (let s1 = (case server s0 of Some old \<Rightarrow> kill old s0 | None \<Rightarrow> s0);
          (h, s2) = fork c (path_join c (rootPath c) ''out/node/entry.js'') (drop 2 (argv c)) s1;
          s3 = console_log [''[server] spawned process '' @ show_nat (pid_of h s2)] s2;
          s4 = on_exit h (ServerExited h) s3
      in s4\<lparr>server := Some h\<rparr>)"

text \<open>\<open>code || 0\<close> for \<open>code\<close> a number, null or undefined.\<close>

definition or_zero :: "int option \<Rightarrow> int" where
  "or_zero code = (case code of None \<Rightarrow> 0 | Some n \<Rightarrow> if n = 0 then 0 else n)"

text \<open>\<open>cleanup\<close> (lines 47-74).\<close>

definition cleanup :: "int option \<Rightarrow> state \<Rightarrow> state" where
  "cleanup code s0 =
     (let s1 = kill (vscode s0) (removeAllListeners (vscode s0)
                 (log ''killing vs code watcher'' False s0));
          s2 = kill (vscodeWebExtensions s1) (removeAllListeners (vscodeWebExtensions s1)
                 (log ''killing vs code web extension watcher'' False s1));
          s3 = kill (tsc s2) (removeAllListeners (tsc s2) (log ''killing tsc'' False s2));
          s4 = (case plugin s3 of
                  Some p \<Rightarrow> kill p (removeAllListeners p (log ''killing plugin'' False s3))
                | None \<Rightarrow> s3);
          s5 = (case server s4 of
                  Some sv \<Rightarrow> kill sv (removeAllListeners sv (log ''killing server'' False s4))
                | None \<Rightarrow> s4);
          s6 = log ''killing watch'' False s5
      in process_exit (or_zero code) s6)"

text \<open>The listeners, run on the argument of the event.\<close>

fun run_exit_listener :: "exit_listener \<Rightarrow> int option \<Rightarrow> state \<Rightarrow> state" where
  "run_exit_listener (ServerExited h) code s =
     console_log [''[server] process '' @ show_nat (pid_of h s) @ '' exited''] s"
| "run_exit_listener VscodeTerminated code s =
     cleanup code (log ''vs code watcher terminated unexpectedly'' False s)"
| "run_exit_listener WebExtTerminated code s =
     cleanup code (log ''vs code extension watcher terminated unexpectedly'' False s)"
| "run_exit_listener TscTerminated code s =
     cleanup code (log ''tsc terminated unexpectedly'' False s)"
| "run_exit_listener PluginTerminated code s =
     cleanup code (log ''plugin terminated unexpectedly'' False s)"

fun run_data_listener :: "data_listener \<Rightarrow> string \<Rightarrow> state \<Rightarrow> state" where
  "run_data_listener StderrForward d s = stderr_write d s"

fun run_line_listener :: "config \<Rightarrow> line_listener \<Rightarrow> string \<Rightarrow> string \<Rightarrow> state \<Rightarrow> state" where
  "run_line_listener c VscodeLine line original s =
     (let s1 = console_log [''[vscode]'', original] s
      in if includes_str line ''Finished compilation'' then restartServer c s1 else s1)"
| "run_line_listener c TscLine line original s =
     (let s1 = (if line \<noteq> '''' then console_log [''[tsc]'', original] s else s)
      in if includes_str line ''Watching for file changes'' then restartServer c s1 else s1)"
| "run_line_listener c PluginLine line original s =
     (let s1 = (if line \<noteq> '''' then console_log [''[plugin]'', original] s else s)
      in if includes_str line ''Watching for file changes'' then restartServer c s1 else s1)"

text \<open>\<open>watch\<close> (lines 26-137): the synchronous setup, up to the return to the event loop.\<close>

definition init :: state where
  "init = \<lparr>procs = [], server = None, vscode = 0, vscodeWebExtensions = 0, tsc = 0,
     plugin = None, signal_listeners = [], effects = [], exited = None\<rparr>"

definition truthy :: "string option \<Rightarrow> bool" where
  "truthy v = (case v of None \<Rightarrow> False | Some x \<Rightarrow> x \<noteq> '''')"

definition watch :: "config \<Rightarrow> state" where
  "watch c =
     (let (v, s1) = spawn c ''yarn'' [''watch''] (vscodeSourcePath c) init;
          s1 = s1\<lparr>vscode := v\<rparr>;
          (w, s2) = spawn c ''yarn'' [''watch-web''] (vscodeSourcePath c) s1;
          s2 = s2\<lparr>vscodeWebExtensions := w\<rparr>;
          (t, s3) = spawn c ''tsc'' [''--watch'', ''--pretty'', ''--preserveWatchOutput'']
                      (rootPath c) s2;
          s3 = s3\<lparr>tsc := t\<rparr>;
          s4 = (if truthy (PLUGIN_DIR c)
                then (let (p, s) = spawn c ''yarn'' [''build'', ''--watch'']
                                     (the (PLUGIN_DIR c)) s3
                      in s\<lparr>plugin := Some p\<rparr>)
                else s3\<lparr>plugin := None\<rparr>);
          s5 = process_on SIGTERM (process_on SIGINT s4);
          s6 = on_exit (vscode s5) VscodeTerminated s5;
          s7 = on_exit (vscodeWebExtensions s6) WebExtTerminated s6;
          s8 = on_exit (tsc s7) TscTerminated s7;
          s9 = (case plugin s8 of Some p \<Rightarrow> on_exit p PluginTerminated s8 | None \<Rightarrow> s8);
          s10 = on_stderr_data (vscodeWebExtensions s9) StderrForward s9;
          s11 = on_stderr_data (vscode s10) StderrForward s10;
          s12 = on_stderr_data (tsc s11) StderrForward s11;
          s13 = (case plugin s12 of Some p \<Rightarrow> on_stderr_data p StderrForward s12 | None \<Rightarrow> s12);
          s14 = onLine (vscode s13) VscodeLine s13;
          s15 = onLine (tsc s14) TscLine s14
      in (case plugin s15 of Some p \<Rightarrow> onLine p PluginLine s15 | None \<Rightarrow> s15))"

subsection \<open>The event loop\<close>

datatype event =
    Signal signal
  | ChildExit handle "int option"
  | StderrData handle string
  | StdoutLine handle string

text \<open>
  Emitting an event calls the listeners in the order of their registration; once the
  supervisor has exited, the remaining ones are not called.
\<close>

definition emit :: "('l \<Rightarrow> state \<Rightarrow> state) \<Rightarrow> 'l list \<Rightarrow> state \<Rightarrow> state" where
  "emit run ls s = fold (\<lambda>l st. if exited st = None then run l st else st) ls s"

definition listeners_of :: "(proc \<Rightarrow> 'l list) \<Rightarrow> handle \<Rightarrow> state \<Rightarrow> 'l list" where
  "listeners_of sel h s = (if h < length (procs s) then sel (procs s ! h) else [])"

fun step :: "config \<Rightarrow> event \<Rightarrow> state \<Rightarrow> state" where
  "step c (Signal sg) s =
     (if exited s \<noteq> None then s
      else emit (\<lambda>_. cleanup None) (filter (\<lambda>x. x = sg) (signal_listeners s)) s)"
| "step c (ChildExit h code) s =
     (if exited s \<noteq> None then s
      else emit (\<lambda>l. run_exit_listener l code) (listeners_of exit_listeners h s) s)"
| "step c (StderrData h d) s =
     (if exited s \<noteq> None then s
      else emit (\<lambda>l. run_data_listener l d) (listeners_of stderr_listeners h s) s)"
| "step c (StdoutLine h chunk) s =
     (if exited s \<noteq> None then s
      else emit (\<lambda>l. run_line_listener c l (fst (onLine_args chunk)) (snd (onLine_args chunk)))
             (listeners_of stdout_listeners h s) s)"

definition run :: "config \<Rightarrow> event list \<Rightarrow> state \<Rightarrow> state" where
  "run c evs s = fold (step c) evs s"

section \<open>Descriptions used in the properties\<close>

subsection \<open>The trace of the cleanup routine\<close>

text \<open>
  One kill step, as the specification describes it: the message and its newline, the removal of the
  listeners of the child-process object, the termination request. The targets are the
  watchers, then the plugin and the server when the variables hold one.
\<close>

definition kill_step :: "string \<times> handle \<Rightarrow> effect list" where
  "kill_step t = [StdoutWrite (fst t), StdoutWrite nl, RemoveAllListeners (snd t), Kill (snd t)]"

definition cleanup_targets :: "state \<Rightarrow> (string \<times> handle) list" where
  "cleanup_targets s =
     [(''killing vs code watcher'', vscode s),
      (''killing vs code web extension watcher'', vscodeWebExtensions s),
      (''killing tsc'', tsc s)]
     @ (case plugin s of Some p \<Rightarrow> [(''killing plugin'', p)] | None \<Rightarrow> [])
     @ (case server s of Some sv \<Rightarrow> [(''killing server'', sv)] | None \<Rightarrow> [])"

text \<open>The same step as a state transformer.\<close>

definition stop_child :: "string \<times> handle \<Rightarrow> state \<Rightarrow> state" where
  "stop_child t s = kill (snd t) (removeAllListeners (snd t) (log (fst t) False s))"

subsection \<open>The invariant of the event loop\<close>

text \<open>
  In every state the event loop reaches, the watchers are the first objects of the store,
  every object carries the listeners registered at its creation (until \<open>cleanup\<close>
  removes those of the child-process objects, after which nothing runs), the server slot
  points into the store behind the watchers, and the trace starts with the spawns of
  \<open>watch\<close> and has no other.
\<close>

definition nwatchers :: "config \<Rightarrow> nat" where
  "nwatchers c = (if truthy (PLUGIN_DIR c) then 4 else 3)"

definition expected_exit :: "config \<Rightarrow> handle \<Rightarrow> exit_listener list" where
  "expected_exit c h =
     (if h = 0 then [VscodeTerminated]
      else if h = 1 then [WebExtTerminated]
      else if h = 2 then [TscTerminated]
      else if h = 3 \<and> truthy (PLUGIN_DIR c) then [PluginTerminated]
      else [ServerExited h])"

definition expected_stdout :: "config \<Rightarrow> handle \<Rightarrow> line_listener list" where
  "expected_stdout c h =
     (if h = 0 then [VscodeLine]
      else if h = 2 then [TscLine]
      else if h = 3 \<and> truthy (PLUGIN_DIR c) then [PluginLine]
      else [])"

definition expected_stderr :: "config \<Rightarrow> handle \<Rightarrow> data_listener list" where
  "expected_stderr c h = (if h < nwatchers c then [StderrForward] else [])"

definition proc_ok :: "config \<Rightarrow> bool \<Rightarrow> handle \<Rightarrow> proc \<Rightarrow> bool" where
  "proc_ok c running h p \<longleftrightarrow>
     pid p = os_pid c h \<and>
     stdout_listeners p = expected_stdout c h \<and>
     stderr_listeners p = expected_stderr c h \<and>
     (running \<longrightarrow> exit_listeners p = expected_exit c h)"

definition tagged :: "string \<Rightarrow> string \<Rightarrow> bool" where
  "tagged tag x = (take (length tag) x = tag)"

definition ok_stdout :: "config \<Rightarrow> string \<Rightarrow> bool" where
  "ok_stdout c x \<longleftrightarrow> truthy (PLUGIN_DIR c) \<or> (\<not> tagged ''[plugin]'' x \<and> x \<noteq> ''killing plugin'')"

fun is_Spawn :: "effect \<Rightarrow> bool" where
  "is_Spawn (Spawn h cmd args cwd) = True"
| "is_Spawn _ = False"

fun effect_ok :: "config \<Rightarrow> nat \<Rightarrow> effect \<Rightarrow> bool" where
  "effect_ok c n (Fork h p a) = (nwatchers c \<le> h \<and> h < n \<and> a = drop 2 (argv c))"
| "effect_ok c n (StdoutWrite x) = ok_stdout c x"
| "effect_ok c n _ = True"

definition loop_inv :: "config \<Rightarrow> state \<Rightarrow> bool" where
  "loop_inv c s \<longleftrightarrow>
     vscode s = 0 \<and> vscodeWebExtensions s = 1 \<and> tsc s = 2 \<and>
     plugin s = (if truthy (PLUGIN_DIR c) then Some 3 else None) \<and>
     nwatchers c \<le> length (procs s) \<and>
     signal_listeners s = [SIGINT, SIGTERM] \<and>
     (\<forall>h. server s = Some h \<longrightarrow> nwatchers c \<le> h \<and> h < length (procs s)) \<and>
     (\<forall>h < length (procs s). proc_ok c (exited s = None) h (procs s ! h)) \<and>
     filter is_Spawn (effects s) = effects (watch c) \<and>
     (\<forall>e \<in> set (effects s). effect_ok c (length (procs s)) e)"

text \<open>The setup as a chain of primitives, the variables evaluated.\<close>

definition setup_watchers :: "config \<Rightarrow> state" where
  "setup_watchers c =
     (add_proc c (Spawn 2 ''tsc'' [''--watch'', ''--pretty'', ''--preserveWatchOutput''] (rootPath c))
       ((add_proc c (Spawn 1 ''yarn'' [''watch-web''] (vscodeSourcePath c))
         ((add_proc c (Spawn 0 ''yarn'' [''watch''] (vscodeSourcePath c)) init)
            \<lparr>vscode := 0\<rparr>))\<lparr>vscodeWebExtensions := 1\<rparr>))\<lparr>tsc := 2\<rparr>"

subsection \<open>Observations on the trace\<close>

text \<open>
  A restart is counted by the fork of a server. The watchers are the handles held by the
  variables of \<open>watch\<close>. The exit code the specification speaks of is the one of the exit event,
  and 0 when the event carries none. The writes to standard output are read off the trace;
  \<open>new_effects\<close> is what an event added to it.
\<close>

fun is_Fork :: "effect \<Rightarrow> bool" where
  "is_Fork (Fork h p a) = True"
| "is_Fork _ = False"

definition restarts :: "state \<Rightarrow> nat" where
  "restarts s = length (filter is_Fork (effects s))"

definition watcher_handles :: "state \<Rightarrow> handle list" where
  "watcher_handles s =
     [vscode s, vscodeWebExtensions s, tsc s] @ (case plugin s of Some p \<Rightarrow> [p] | None \<Rightarrow> [])"

definition exit_code_of :: "int option \<Rightarrow> int" where
  "exit_code_of code = (case code of Some n \<Rightarrow> n | None \<Rightarrow> 0)"

fun stdout_of :: "effect \<Rightarrow> string list" where
  "stdout_of (StdoutWrite x) = [x]"
| "stdout_of _ = []"

definition stdout_writes :: "effect list \<Rightarrow> string list" where
  "stdout_writes es = concat (map stdout_of es)"

definition new_effects :: "state \<Rightarrow> state \<Rightarrow> effect list" where
  "new_effects s s' = drop (length (effects s)) (effects s')"

definition spawned_line :: "config \<Rightarrow> state \<Rightarrow> string" where
  "spawned_line c s = ''[server] spawned process '' @ show_nat (os_pid c (length (procs s))) @ nl"

fun is_RemoveAllListeners :: "effect \<Rightarrow> bool" where
  "is_RemoveAllListeners (RemoveAllListeners h) = True"
| "is_RemoveAllListeners _ = False"

subsection \<open>A concrete run\<close>

definition example_config :: config where
  "example_config = \<lparr>argv = [''node'', ''watch.ts'', ''--port'', ''8080''], PLUGIN_DIR = None,
     rootPath = ''/repo'',
     path_join = (\<lambda>dir rel. dir @ ''/'' @ rel), os_pid = (\<lambda>h. 1000 + h)\<rparr>"

text \<open>The state after the editor-source watcher has reported one finished compilation.\<close>

definition example_state :: state where
  "example_state = run example_config [StdoutLine 0 ''Finished compilation''] (watch example_config)"

definition example_plugin_config :: config where
  "example_plugin_config = \<lparr>argv = [''node'', ''watch.ts''], PLUGIN_DIR = Some ''/plugin'',
     rootPath = ''/repo'',
     path_join = (\<lambda>dir rel. dir @ ''/'' @ rel), os_pid = (\<lambda>h. 2000 + h)\<rparr>"

text \<open>The state after the plugin watcher has reported that it watches for changes.\<close>

definition example_plugin_state :: state where
  "example_plugin_state =
     run example_plugin_config [StdoutLine 3 ''Watching for file changes'']
       (watch example_plugin_config)"

section \<open>Properties\<close>

subsection \<open>Strings\<close>

lemma includes_str_iff: "includes_str s sub \<longleftrightarrow> (\<exists>p q. s = p @ sub @ q)"
proof (induction s)
  case Nil
  then show ?case by auto
next
  case (Cons x xs)
  show ?case
  proof
    assume "includes_str (x # xs) sub"
    then consider "take (length sub) (x # xs) = sub" | "includes_str xs sub" by auto
    then show "\<exists>p q. x # xs = p @ sub @ q"
    proof cases
      case 1
      then have "x # xs = [] @ sub @ drop (length sub) (x # xs)"
        by (metis append_Nil append_take_drop_id)
      then show ?thesis by blast
    next
      case 2
      then obtain p q where "xs = p @ sub @ q" using Cons.IH by blast
      then have "x # xs = (x # p) @ sub @ q" by simp
      then show ?thesis by blast
    qed
  next
    assume "\<exists>p q. x # xs = p @ sub @ q"
    then obtain p q where pq: "x # xs = p @ sub @ q" by blast
    show "includes_str (x # xs) sub"
    proof (cases p)
      case Nil
      then have "take (length sub) (x # xs) = sub" using pq by simp
      then show ?thesis by simp
    next
      case (Cons y p')
      then have "xs = p' @ sub @ q" using pq by simp
      then show ?thesis using Cons.IH by auto
    qed
  qed
qed

subsection \<open>The primitives, field by field\<close>

lemma upd_proc_fields [simp]:
  "server (upd_proc h f s) = server s"
  "vscode (upd_proc h f s) = vscode s"
  "vscodeWebExtensions (upd_proc h f s) = vscodeWebExtensions s"
  "tsc (upd_proc h f s) = tsc s"
  "plugin (upd_proc h f s) = plugin s"
  "signal_listeners (upd_proc h f s) = signal_listeners s"
  "effects (upd_proc h f s) = effects s"
  "exited (upd_proc h f s) = exited s"
  "length (procs (upd_proc h f s)) = length (procs s)"
  by (simp_all add: upd_proc_def)

lemma upd_proc_nth:
  "k < length (procs s) \<Longrightarrow>
     procs (upd_proc h f s) ! k = (if k = h then f (procs s ! k) else procs s ! k)"
  by (simp add: upd_proc_def)

lemma emit_effect_fields [simp]:
  "server (emit_effect e s) = server s"
  "vscode (emit_effect e s) = vscode s"
  "vscodeWebExtensions (emit_effect e s) = vscodeWebExtensions s"
  "tsc (emit_effect e s) = tsc s"
  "plugin (emit_effect e s) = plugin s"
  "signal_listeners (emit_effect e s) = signal_listeners s"
  "effects (emit_effect e s) = effects s @ [e]"
  "exited (emit_effect e s) = exited s"
  "procs (emit_effect e s) = procs s"
  by (simp_all add: emit_effect_def)

lemma kill_fields [simp]:
  "server (kill h s) = server s"
  "vscode (kill h s) = vscode s"
  "vscodeWebExtensions (kill h s) = vscodeWebExtensions s"
  "tsc (kill h s) = tsc s"
  "plugin (kill h s) = plugin s"
  "signal_listeners (kill h s) = signal_listeners s"
  "effects (kill h s) = effects s @ [Kill h]"
  "exited (kill h s) = exited s"
  "length (procs (kill h s)) = length (procs s)"
  by (simp_all add: kill_def)

lemma kill_nth:
  "k < length (procs s) \<Longrightarrow>
     procs (kill h s) ! k = (if k = h then (procs s ! k)\<lparr>kills := Suc (kills (procs s ! k))\<rparr> else procs s ! k)"
  by (simp add: kill_def upd_proc_nth)

lemma removeAllListeners_fields [simp]:
  "server (removeAllListeners h s) = server s"
  "vscode (removeAllListeners h s) = vscode s"
  "vscodeWebExtensions (removeAllListeners h s) = vscodeWebExtensions s"
  "tsc (removeAllListeners h s) = tsc s"
  "plugin (removeAllListeners h s) = plugin s"
  "signal_listeners (removeAllListeners h s) = signal_listeners s"
  "effects (removeAllListeners h s) = effects s @ [RemoveAllListeners h]"
  "exited (removeAllListeners h s) = exited s"
  "length (procs (removeAllListeners h s)) = length (procs s)"
  by (simp_all add: removeAllListeners_def)

lemma removeAllListeners_nth:
  "k < length (procs s) \<Longrightarrow>
     procs (removeAllListeners h s) ! k = (if k = h then (procs s ! k)\<lparr>exit_listeners := []\<rparr> else procs s ! k)"
  by (simp add: removeAllListeners_def upd_proc_nth)

lemma log_fields [simp]:
  "server (log m False s) = server s"
  "vscode (log m False s) = vscode s"
  "vscodeWebExtensions (log m False s) = vscodeWebExtensions s"
  "tsc (log m False s) = tsc s"
  "plugin (log m False s) = plugin s"
  "signal_listeners (log m False s) = signal_listeners s"
  "effects (log m False s) = effects s @ [StdoutWrite m, StdoutWrite nl]"
  "exited (log m False s) = exited s"
  "procs (log m False s) = procs s"
  by (simp_all add: log_def)

lemma console_log_fields [simp]:
  "server (console_log as s) = server s"
  "vscode (console_log as s) = vscode s"
  "vscodeWebExtensions (console_log as s) = vscodeWebExtensions s"
  "tsc (console_log as s) = tsc s"
  "plugin (console_log as s) = plugin s"
  "signal_listeners (console_log as s) = signal_listeners s"
  "effects (console_log as s) = effects s @ [StdoutWrite (unwords as @ nl)]"
  "exited (console_log as s) = exited s"
  "procs (console_log as s) = procs s"
  by (simp_all add: console_log_def)

lemma stderr_write_fields [simp]:
  "server (stderr_write d s) = server s"
  "vscode (stderr_write d s) = vscode s"
  "vscodeWebExtensions (stderr_write d s) = vscodeWebExtensions s"
  "tsc (stderr_write d s) = tsc s"
  "plugin (stderr_write d s) = plugin s"
  "signal_listeners (stderr_write d s) = signal_listeners s"
  "effects (stderr_write d s) = effects s @ [StderrWrite d]"
  "exited (stderr_write d s) = exited s"
  "procs (stderr_write d s) = procs s"
  by (simp_all add: stderr_write_def)

lemma process_exit_fields [simp]:
  "server (process_exit n s) = server s"
  "vscode (process_exit n s) = vscode s"
  "vscodeWebExtensions (process_exit n s) = vscodeWebExtensions s"
  "tsc (process_exit n s) = tsc s"
  "plugin (process_exit n s) = plugin s"
  "signal_listeners (process_exit n s) = signal_listeners s"
  "effects (process_exit n s) = effects s @ [ProcessExit n]"
  "exited (process_exit n s) = Some n"
  "procs (process_exit n s) = procs s"
  by (simp_all add: process_exit_def)

text \<open>\<open>restartServer\<close>, field by field.\<close>

lemma restartServer_fields [simp]:
  "server (restartServer c s) = Some (length (procs s))"
  "vscode (restartServer c s) = vscode s"
  "vscodeWebExtensions (restartServer c s) = vscodeWebExtensions s"
  "tsc (restartServer c s) = tsc s"
  "plugin (restartServer c s) = plugin s"
  "signal_listeners (restartServer c s) = signal_listeners s"
  "exited (restartServer c s) = exited s"
  "length (procs (restartServer c s)) = Suc (length (procs s))"
  by (simp_all add: restartServer_def fork_def add_proc_def on_exit_def Let_def split: option.splits)

lemma restartServer_effects:
  "effects (restartServer c s) =
     effects s @ (case server s of Some old \<Rightarrow> [Kill old] | None \<Rightarrow> [])
       @ [Fork (length (procs s)) (path_join c (rootPath c) ''out/node/entry.js'') (drop 2 (argv c)),
          StdoutWrite (''[server] spawned process '' @ show_nat (os_pid c (length (procs s))) @ nl)]"
  by (simp add: restartServer_def fork_def add_proc_def on_exit_def Let_def pid_of_def new_proc_def nth_append
      split: option.splits)

lemma restartServer_new:
  "procs (restartServer c s) ! length (procs s) =
     (new_proc c (length (procs s)))\<lparr>exit_listeners := [ServerExited (length (procs s))]\<rparr>"
  by (simp add: restartServer_def fork_def add_proc_def on_exit_def Let_def upd_proc_def new_proc_def nth_append
      split: option.splits)

lemma restartServer_old:
  "k < length (procs s) \<Longrightarrow>
     procs (restartServer c s) ! k =
       (if server s = Some k then (procs s ! k)\<lparr>kills := Suc (kills (procs s ! k))\<rparr> else procs s ! k)"
  by (simp add: restartServer_def fork_def add_proc_def on_exit_def Let_def upd_proc_def nth_append kill_nth
      split: option.splits)


lemma add_proc_fields [simp]:
  "server (add_proc c e s) = server s"
  "vscode (add_proc c e s) = vscode s"
  "vscodeWebExtensions (add_proc c e s) = vscodeWebExtensions s"
  "tsc (add_proc c e s) = tsc s"
  "plugin (add_proc c e s) = plugin s"
  "signal_listeners (add_proc c e s) = signal_listeners s"
  "effects (add_proc c e s) = effects s @ [e]"
  "exited (add_proc c e s) = exited s"
  "length (procs (add_proc c e s)) = Suc (length (procs s))"
  by (simp_all add: add_proc_def)

lemma add_proc_nth:
  "k \<le> length (procs s) \<Longrightarrow>
     procs (add_proc c e s) ! k = (if k < length (procs s) then procs s ! k else new_proc c k)"
  by (auto simp add: add_proc_def nth_append)

lemma add_proc_nth_new:
  "procs (add_proc c e s) ! length (procs s) = new_proc c (length (procs s))"
  by (simp add: add_proc_def)

lemma on_exit_fields [simp]:
  "server (on_exit h l s) = server s"
  "vscode (on_exit h l s) = vscode s"
  "vscodeWebExtensions (on_exit h l s) = vscodeWebExtensions s"
  "tsc (on_exit h l s) = tsc s"
  "plugin (on_exit h l s) = plugin s"
  "signal_listeners (on_exit h l s) = signal_listeners s"
  "effects (on_exit h l s) = effects s"
  "exited (on_exit h l s) = exited s"
  "length (procs (on_exit h l s)) = length (procs s)"
  by (simp_all add: on_exit_def)

lemma on_exit_nth:
  "k < length (procs s) \<Longrightarrow>
     procs (on_exit h l s) ! k =
       (if k = h then (procs s ! k)\<lparr>exit_listeners := exit_listeners (procs s ! k) @ [l]\<rparr>
        else procs s ! k)"
  by (simp add: on_exit_def upd_proc_nth)

lemma on_stderr_data_fields [simp]:
  "server (on_stderr_data h l s) = server s"
  "vscode (on_stderr_data h l s) = vscode s"
  "vscodeWebExtensions (on_stderr_data h l s) = vscodeWebExtensions s"
  "tsc (on_stderr_data h l s) = tsc s"
  "plugin (on_stderr_data h l s) = plugin s"
  "signal_listeners (on_stderr_data h l s) = signal_listeners s"
  "effects (on_stderr_data h l s) = effects s"
  "exited (on_stderr_data h l s) = exited s"
  "length (procs (on_stderr_data h l s)) = length (procs s)"
  by (simp_all add: on_stderr_data_def)

lemma on_stderr_data_nth:
  "k < length (procs s) \<Longrightarrow>
     procs (on_stderr_data h l s) ! k =
       (if k = h then (procs s ! k)\<lparr>stderr_listeners := stderr_listeners (procs s ! k) @ [l]\<rparr>
        else procs s ! k)"
  by (simp add: on_stderr_data_def upd_proc_nth)

lemma onLine_fields [simp]:
  "server (onLine h l s) = server s"
  "vscode (onLine h l s) = vscode s"
  "vscodeWebExtensions (onLine h l s) = vscodeWebExtensions s"
  "tsc (onLine h l s) = tsc s"
  "plugin (onLine h l s) = plugin s"
  "signal_listeners (onLine h l s) = signal_listeners s"
  "effects (onLine h l s) = effects s"
  "exited (onLine h l s) = exited s"
  "length (procs (onLine h l s)) = length (procs s)"
  by (simp_all add: onLine_def)

lemma onLine_nth:
  "k < length (procs s) \<Longrightarrow>
     procs (onLine h l s) ! k =
       (if k = h then (procs s ! k)\<lparr>stdout_listeners := stdout_listeners (procs s ! k) @ [l]\<rparr>
        else procs s ! k)"
  by (simp add: onLine_def upd_proc_nth)

lemma process_on_fields [simp]:
  "server (process_on sg s) = server s"
  "vscode (process_on sg s) = vscode s"
  "vscodeWebExtensions (process_on sg s) = vscodeWebExtensions s"
  "tsc (process_on sg s) = tsc s"
  "plugin (process_on sg s) = plugin s"
  "signal_listeners (process_on sg s) = signal_listeners s @ [sg]"
  "effects (process_on sg s) = effects s"
  "exited (process_on sg s) = exited s"
  "procs (process_on sg s) = procs s"
  by (simp_all add: process_on_def)

lemma init_fields [simp]:
  "server init = None"
  "signal_listeners init = []"
  "effects init = []"
  "exited init = None"
  "procs init = []"
  by (simp_all add: init_def)

subsection \<open>Cleanup\<close>

lemma stop_child_fields [simp]:
  "server (stop_child t s) = server s"
  "vscode (stop_child t s) = vscode s"
  "vscodeWebExtensions (stop_child t s) = vscodeWebExtensions s"
  "tsc (stop_child t s) = tsc s"
  "plugin (stop_child t s) = plugin s"
  "signal_listeners (stop_child t s) = signal_listeners s"
  "exited (stop_child t s) = exited s"
  "length (procs (stop_child t s)) = length (procs s)"
  "effects (stop_child t s) = effects s @ kill_step t"
  by (simp_all add: stop_child_def kill_step_def)

lemma kill_nth_sel:
  assumes "k < length (procs s)"
  shows "pid (procs (kill h s) ! k) = pid (procs s ! k)"
    and "exit_listeners (procs (kill h s) ! k) = exit_listeners (procs s ! k)"
    and "stdout_listeners (procs (kill h s) ! k) = stdout_listeners (procs s ! k)"
    and "stderr_listeners (procs (kill h s) ! k) = stderr_listeners (procs s ! k)"
    and "kills (procs (kill h s) ! k) = (if k = h then Suc (kills (procs s ! k)) else kills (procs s ! k))"
  using assms by (simp_all add: kill_nth)

lemma removeAllListeners_nth_sel:
  assumes "k < length (procs s)"
  shows "pid (procs (removeAllListeners h s) ! k) = pid (procs s ! k)"
    and "exit_listeners (procs (removeAllListeners h s) ! k) = (if k = h then [] else exit_listeners (procs s ! k))"
    and "stdout_listeners (procs (removeAllListeners h s) ! k) = stdout_listeners (procs s ! k)"
    and "stderr_listeners (procs (removeAllListeners h s) ! k) = stderr_listeners (procs s ! k)"
    and "kills (procs (removeAllListeners h s) ! k) = kills (procs s ! k)"
  using assms by (simp_all add: removeAllListeners_nth)

lemma stop_child_nth_sel:
  assumes "k < length (procs s)"
  shows "pid (procs (stop_child t s) ! k) = pid (procs s ! k)"
    and "exit_listeners (procs (stop_child t s) ! k) = (if k = snd t then [] else exit_listeners (procs s ! k))"
    and "stdout_listeners (procs (stop_child t s) ! k) = stdout_listeners (procs s ! k)"
    and "stderr_listeners (procs (stop_child t s) ! k) = stderr_listeners (procs s ! k)"
    and "kills (procs (stop_child t s) ! k) = (if k = snd t then Suc (kills (procs s ! k)) else kills (procs s ! k))"
  using assms by (simp_all add: stop_child_def kill_nth_sel removeAllListeners_nth_sel)

lemma fold_stop_child_fields [simp]:
  "server (fold stop_child ts s) = server s"
  "vscode (fold stop_child ts s) = vscode s"
  "vscodeWebExtensions (fold stop_child ts s) = vscodeWebExtensions s"
  "tsc (fold stop_child ts s) = tsc s"
  "plugin (fold stop_child ts s) = plugin s"
  "signal_listeners (fold stop_child ts s) = signal_listeners s"
  "exited (fold stop_child ts s) = exited s"
  "length (procs (fold stop_child ts s)) = length (procs s)"
  "effects (fold stop_child ts s) = effects s @ concat (map kill_step ts)"
  by (induction ts arbitrary: s; simp)+

lemma fold_stop_child_nth_sel:
  assumes "k < length (procs s)"
  shows "pid (procs (fold stop_child ts s) ! k) = pid (procs s ! k)"
    and "exit_listeners (procs (fold stop_child ts s) ! k) =
           (if k \<in> snd ` set ts then [] else exit_listeners (procs s ! k))"
    and "stdout_listeners (procs (fold stop_child ts s) ! k) = stdout_listeners (procs s ! k)"
    and "stderr_listeners (procs (fold stop_child ts s) ! k) = stderr_listeners (procs s ! k)"
    and "kills (procs (fold stop_child ts s) ! k) = kills (procs s ! k) + count_list (map snd ts) k"
  using assms by (induction ts arbitrary: s; simp add: stop_child_nth_sel)+

lemma cleanup_fold:
  "cleanup code s =
     process_exit (or_zero code) (log ''killing watch'' False (fold stop_child (cleanup_targets s) s))"
  by (simp add: cleanup_def Let_def cleanup_targets_def stop_child_def split: option.splits)

lemma cleanup_fields [simp]:
  "server (cleanup code s) = server s"
  "vscode (cleanup code s) = vscode s"
  "vscodeWebExtensions (cleanup code s) = vscodeWebExtensions s"
  "tsc (cleanup code s) = tsc s"
  "plugin (cleanup code s) = plugin s"
  "signal_listeners (cleanup code s) = signal_listeners s"
  "exited (cleanup code s) = Some (or_zero code)"
  "length (procs (cleanup code s)) = length (procs s)"
  by (simp_all add: cleanup_fold)

lemma cleanup_effects:
  "effects (cleanup code s) =
     effects s @ concat (map kill_step (cleanup_targets s))
       @ [StdoutWrite ''killing watch'', StdoutWrite nl, ProcessExit (or_zero code)]"
  by (simp add: cleanup_fold)

lemma cleanup_nth_sel:
  assumes "k < length (procs s)"
  shows "pid (procs (cleanup code s) ! k) = pid (procs s ! k)"
    and "exit_listeners (procs (cleanup code s) ! k) =
           (if k \<in> snd ` set (cleanup_targets s) then [] else exit_listeners (procs s ! k))"
    and "stdout_listeners (procs (cleanup code s) ! k) = stdout_listeners (procs s ! k)"
    and "stderr_listeners (procs (cleanup code s) ! k) = stderr_listeners (procs s ! k)"
    and "kills (procs (cleanup code s) ! k) =
           kills (procs s ! k) + count_list (map snd (cleanup_targets s)) k"
  using assms by (simp_all add: cleanup_fold fold_stop_child_nth_sel)


subsection \<open>Setup\<close>

lemma watch_plugin:
  assumes "truthy (PLUGIN_DIR c)"
  shows "watch c =
     onLine 3 PluginLine (onLine 2 TscLine (onLine 0 VscodeLine
      (on_stderr_data 3 StderrForward (on_stderr_data 2 StderrForward
        (on_stderr_data 0 StderrForward (on_stderr_data 1 StderrForward
          (on_exit 3 PluginTerminated (on_exit 2 TscTerminated (on_exit 1 WebExtTerminated
            (on_exit 0 VscodeTerminated (process_on SIGTERM (process_on SIGINT
              ((add_proc c (Spawn 3 ''yarn'' [''build'', ''--watch''] (the (PLUGIN_DIR c)))
                 (setup_watchers c))\<lparr>plugin := Some 3\<rparr>)))))))))))))"
  using assms
  by (simp add: watch_def spawn_def setup_watchers_def Let_def numeral_2_eq_2 numeral_3_eq_3
      cong: let_weak_cong)

lemma watch_no_plugin:
  assumes "\<not> truthy (PLUGIN_DIR c)"
  shows "watch c =
     onLine 2 TscLine (onLine 0 VscodeLine
      (on_stderr_data 2 StderrForward
        (on_stderr_data 0 StderrForward (on_stderr_data 1 StderrForward
          (on_exit 2 TscTerminated (on_exit 1 WebExtTerminated
            (on_exit 0 VscodeTerminated (process_on SIGTERM (process_on SIGINT
              ((setup_watchers c)\<lparr>plugin := None\<rparr>))))))))))"
  using assms
  by (simp add: watch_def spawn_def setup_watchers_def Let_def numeral_2_eq_2 numeral_3_eq_3
      cong: let_weak_cong)

text \<open>The two chains as the code equation of \<open>watch\<close>.\<close>

lemma watch_code [code]:
  "watch c =
     (if truthy (PLUGIN_DIR c)
      then onLine 3 PluginLine (onLine 2 TscLine (onLine 0 VscodeLine
      (on_stderr_data 3 StderrForward (on_stderr_data 2 StderrForward
        (on_stderr_data 0 StderrForward (on_stderr_data 1 StderrForward
          (on_exit 3 PluginTerminated (on_exit 2 TscTerminated (on_exit 1 WebExtTerminated
            (on_exit 0 VscodeTerminated (process_on SIGTERM (process_on SIGINT
              ((add_proc c (Spawn 3 ''yarn'' [''build'', ''--watch''] (the (PLUGIN_DIR c)))
                 (setup_watchers c))\<lparr>plugin := Some 3\<rparr>)))))))))))))
      else onLine 2 TscLine (onLine 0 VscodeLine
      (on_stderr_data 2 StderrForward
        (on_stderr_data 0 StderrForward (on_stderr_data 1 StderrForward
          (on_exit 2 TscTerminated (on_exit 1 WebExtTerminated
            (on_exit 0 VscodeTerminated (process_on SIGTERM (process_on SIGINT
              ((setup_watchers c)\<lparr>plugin := None\<rparr>)))))))))))"
  by (simp add: watch_plugin watch_no_plugin)

lemmas nth_chain = onLine_nth on_stderr_data_nth on_exit_nth add_proc_nth setup_watchers_def
  new_proc_def

lemma setup_watchers_fields [simp]:
  "server (setup_watchers c) = None"
  "vscode (setup_watchers c) = 0"
  "vscodeWebExtensions (setup_watchers c) = 1"
  "tsc (setup_watchers c) = 2"
  "signal_listeners (setup_watchers c) = []"
  "exited (setup_watchers c) = None"
  "length (procs (setup_watchers c)) = 3"
  "effects (setup_watchers c) =
     [Spawn 0 ''yarn'' [''watch''] (vscodeSourcePath c),
      Spawn 1 ''yarn'' [''watch-web''] (vscodeSourcePath c),
      Spawn 2 ''tsc'' [''--watch'', ''--pretty'', ''--preserveWatchOutput''] (rootPath c)]"
  by (simp_all add: setup_watchers_def)

lemma watch_fields:
  "server (watch c) = None"
  "vscode (watch c) = 0"
  "vscodeWebExtensions (watch c) = 1"
  "tsc (watch c) = 2"
  "plugin (watch c) = (if truthy (PLUGIN_DIR c) then Some 3 else None)"
  "signal_listeners (watch c) = [SIGINT, SIGTERM]"
  "exited (watch c) = None"
  "length (procs (watch c)) = nwatchers c"
  by (cases "truthy (PLUGIN_DIR c)"; simp add: watch_plugin watch_no_plugin nwatchers_def)+

lemma watch_effects:
  "effects (watch c) =
     [Spawn 0 ''yarn'' [''watch''] (vscodeSourcePath c),
      Spawn 1 ''yarn'' [''watch-web''] (vscodeSourcePath c),
      Spawn 2 ''tsc'' [''--watch'', ''--pretty'', ''--preserveWatchOutput''] (rootPath c)]
     @ (if truthy (PLUGIN_DIR c) then [Spawn 3 ''yarn'' [''build'', ''--watch''] (the (PLUGIN_DIR c))]
        else [])"
  by (cases "truthy (PLUGIN_DIR c)"; simp add: watch_plugin watch_no_plugin)

lemma watch_proc_0:
  "procs (watch c) ! 0 = \<lparr>pid = os_pid c 0, exit_listeners = [VscodeTerminated],
     stdout_listeners = [VscodeLine], stderr_listeners = [StderrForward], kills = 0\<rparr>"
  by (cases "truthy (PLUGIN_DIR c)"; simp add: watch_plugin watch_no_plugin nth_chain)

lemma watch_proc_1:
  "procs (watch c) ! 1 = \<lparr>pid = os_pid c 1, exit_listeners = [WebExtTerminated],
     stdout_listeners = [], stderr_listeners = [StderrForward], kills = 0\<rparr>"
  by (cases "truthy (PLUGIN_DIR c)"; simp add: watch_plugin watch_no_plugin nth_chain)

lemma watch_proc_2:
  "procs (watch c) ! 2 = \<lparr>pid = os_pid c 2, exit_listeners = [TscTerminated],
     stdout_listeners = [TscLine], stderr_listeners = [StderrForward], kills = 0\<rparr>"
  by (cases "truthy (PLUGIN_DIR c)"; simp add: watch_plugin watch_no_plugin nth_chain)

lemma watch_proc_3:
  "truthy (PLUGIN_DIR c) \<Longrightarrow>
   procs (watch c) ! 3 = \<lparr>pid = os_pid c 3, exit_listeners = [PluginTerminated],
     stdout_listeners = [PluginLine], stderr_listeners = [StderrForward], kills = 0\<rparr>"
  by (simp add: watch_plugin nth_chain)

lemma watch_proc_ok:
  assumes "h < nwatchers c"
  shows "proc_ok c True h (procs (watch c) ! h)"
proof -
  from assms have "h = 0 \<or> h = 1 \<or> h = 2 \<or> (h = 3 \<and> truthy (PLUGIN_DIR c))"
    by (cases "truthy (PLUGIN_DIR c)") (simp_all add: nwatchers_def, arith+)
  then consider "h = 0" | "h = 1" | "h = 2" | "h = 3" "truthy (PLUGIN_DIR c)"
    by blast
  then show ?thesis
  proof cases
    case 1 then show ?thesis
      by (simp add: watch_proc_0 proc_ok_def expected_exit_def expected_stdout_def
          expected_stderr_def nwatchers_def)
  next
    case 2 then show ?thesis
      using watch_proc_1 [of c]
      by (simp add: proc_ok_def expected_exit_def expected_stdout_def
          expected_stderr_def nwatchers_def)
  next
    case 3 then show ?thesis
      by (simp add: watch_proc_2 proc_ok_def expected_exit_def expected_stdout_def
          expected_stderr_def nwatchers_def)
  next
    case 4 then show ?thesis
      by (simp add: watch_proc_3 proc_ok_def expected_exit_def expected_stdout_def
          expected_stderr_def nwatchers_def)
  qed
qed

lemma inv_watch: "loop_inv c (watch c)"
  unfolding loop_inv_def
  by (simp add: watch_fields watch_proc_ok) (simp add: watch_effects)


subsection \<open>The invariant is kept\<close>

lemma effect_ok_mono: "effect_ok c n e \<Longrightarrow> n \<le> m \<Longrightarrow> effect_ok c m e"
  by (cases e) auto

lemma ok_stdout_literals:
  "ok_stdout c nl"
  "ok_stdout c ''killing vs code watcher''"
  "ok_stdout c ''killing vs code web extension watcher''"
  "ok_stdout c ''killing tsc''"
  "ok_stdout c ''killing server''"
  "ok_stdout c ''killing watch''"
  "ok_stdout c ''vs code watcher terminated unexpectedly''"
  "ok_stdout c ''vs code extension watcher terminated unexpectedly''"
  "ok_stdout c ''tsc terminated unexpectedly''"
  "ok_stdout c ''plugin terminated unexpectedly''"
  by (simp_all add: ok_stdout_def tagged_def nl_def)

lemma ok_stdout_tags:
  "ok_stdout c (unwords [''[vscode]'', x] @ nl)"
  "ok_stdout c (unwords [''[tsc]'', x] @ nl)"
  "ok_stdout c (unwords [''[server] spawned process '' @ y] @ nl)"
  "ok_stdout c (unwords [''[server] process '' @ y @ '' exited''] @ nl)"
  by (simp_all add: ok_stdout_def tagged_def)

lemma ok_stdout_plugin:
  "truthy (PLUGIN_DIR c) \<Longrightarrow> ok_stdout c x"
  by (simp add: ok_stdout_def)

lemma inv_effects:
  assumes "loop_inv c s"
    and "procs s' = procs s" "server s' = server s" "vscode s' = vscode s"
    and "vscodeWebExtensions s' = vscodeWebExtensions s" "tsc s' = tsc s" "plugin s' = plugin s"
    and "signal_listeners s' = signal_listeners s" "exited s' = exited s"
    and "effects s' = effects s @ es"
    and "\<forall>e \<in> set es. \<not> is_Spawn e \<and> effect_ok c (length (procs s)) e"
  shows "loop_inv c s'"
  using assms unfolding loop_inv_def by auto

lemma inv_console_log:
  "loop_inv c s \<Longrightarrow> ok_stdout c (unwords as @ nl) \<Longrightarrow> loop_inv c (console_log as s)"
  by (rule inv_effects [where es = "[StdoutWrite (unwords as @ nl)]"]) simp_all

lemma inv_log:
  "loop_inv c s \<Longrightarrow> ok_stdout c m \<Longrightarrow> loop_inv c (log m False s)"
  by (rule inv_effects [where es = "[StdoutWrite m, StdoutWrite nl]"])
     (simp_all add: ok_stdout_literals)

lemma inv_stderr_write:
  "loop_inv c s \<Longrightarrow> loop_inv c (stderr_write d s)"
  by (rule inv_effects [where es = "[StderrWrite d]"]) simp_all


lemma expected_server:
  assumes "nwatchers c \<le> h"
  shows "expected_exit c h = [ServerExited h]"
    and "expected_stdout c h = []"
    and "expected_stderr c h = []"
  using assms
  by (auto simp: expected_exit_def expected_stdout_def expected_stderr_def nwatchers_def
      split: if_splits)

lemma proc_ok_kills:
  "proc_ok c r h (p\<lparr>kills := k\<rparr>) = proc_ok c r h p"
  by (simp add: proc_ok_def)

lemma proc_ok_restartServer:
  assumes "loop_inv c s" and "h < Suc (length (procs s))"
  shows "proc_ok c (exited s = None) h (procs (restartServer c s) ! h)"
proof (cases "h < length (procs s)")
  case True
  then have "proc_ok c (exited s = None) h (procs s ! h)"
    using assms(1) by (simp add: loop_inv_def)
  then show ?thesis using True by (simp add: restartServer_old proc_ok_kills)
next
  case False
  then have h: "h = length (procs s)" using assms(2) by simp
  have "nwatchers c \<le> length (procs s)" using assms(1) by (simp add: loop_inv_def)
  then show ?thesis
    by (simp add: h restartServer_new proc_ok_def new_proc_def expected_server)
qed

lemma inv_restartServer:
  assumes "loop_inv c s"
  shows "loop_inv c (restartServer c s)"
proof -
  have n: "nwatchers c \<le> length (procs s)" using assms by (simp add: loop_inv_def)
  have sp: "filter is_Spawn (effects (restartServer c s)) = effects (watch c)"
    using assms by (simp add: loop_inv_def restartServer_effects split: option.splits)
  have old: "\<forall>e \<in> set (effects s). effect_ok c (Suc (length (procs s))) e"
    using assms by (auto simp: loop_inv_def intro: effect_ok_mono)
  have eff: "\<forall>e \<in> set (effects (restartServer c s)). effect_ok c (Suc (length (procs s))) e"
    using old n by (auto simp: restartServer_effects ok_stdout_tags [simplified] split: option.splits)
  show ?thesis
    unfolding loop_inv_def
    using assms n sp eff proc_ok_restartServer [OF assms]
    by (simp add: loop_inv_def)
qed

lemma proc_ok_stopped:
  assumes "pid p' = pid p" "stdout_listeners p' = stdout_listeners p"
    and "stderr_listeners p' = stderr_listeners p" and "proc_ok c r h p"
  shows "proc_ok c False h p'"
  using assms by (simp add: proc_ok_def)

lemma inv_cleanup:
  assumes "loop_inv c s"
  shows "loop_inv c (cleanup code s)"
proof -
  have sp: "filter is_Spawn (effects (cleanup code s)) = effects (watch c)"
    using assms
    by (simp add: loop_inv_def cleanup_effects cleanup_targets_def kill_step_def split: option.splits)
  have eff: "\<forall>e \<in> set (effects (cleanup code s)). effect_ok c (length (procs s)) e"
    using assms
    by (auto simp: loop_inv_def cleanup_effects cleanup_targets_def kill_step_def ok_stdout_literals
        ok_stdout_plugin split: option.splits if_splits)
  have pr: "\<forall>h < length (procs s). proc_ok c False h (procs (cleanup code s) ! h)"
  proof (intro allI impI)
    fix h assume h: "h < length (procs s)"
    then have "proc_ok c (exited s = None) h (procs s ! h)" using assms by (simp add: loop_inv_def)
    then show "proc_ok c False h (procs (cleanup code s) ! h)"
      using h by (intro proc_ok_stopped [where p = "procs s ! h"]) (simp_all add: cleanup_nth_sel)
  qed
  show ?thesis
    unfolding loop_inv_def
    using assms sp eff pr
    by (simp add: loop_inv_def)
qed

subsection \<open>The events\<close>

lemma emit_Nil [simp]: "emit f [] s = s"
  by (simp add: emit_def)

lemma emit_single: "emit f [l] s = (if exited s = None then f l s else s)"
  by (simp add: emit_def)

lemma inv_listeners:
  assumes "loop_inv c s"
  shows "listeners_of stdout_listeners h s = (if h < length (procs s) then expected_stdout c h else [])"
    and "listeners_of stderr_listeners h s = (if h < length (procs s) then expected_stderr c h else [])"
    and "exited s = None \<Longrightarrow>
           listeners_of exit_listeners h s = (if h < length (procs s) then expected_exit c h else [])"
  using assms by (auto simp: loop_inv_def listeners_of_def proc_ok_def)

lemma inv_vars:
  assumes "loop_inv c s"
  shows "vscode s = 0" and "vscodeWebExtensions s = 1" and "tsc s = 2"
    and "plugin s = (if truthy (PLUGIN_DIR c) then Some 3 else None)"
    and "nwatchers c \<le> length (procs s)"
    and "signal_listeners s = [SIGINT, SIGTERM]"
  using assms by (simp_all add: loop_inv_def)

lemma three_le_nwatchers: "3 \<le> nwatchers c"
  by (simp add: nwatchers_def)

text \<open>What each event does in a state of the event loop.\<close>

lemma step_exited: "exited s \<noteq> None \<Longrightarrow> step c ev s = s"
  by (cases ev) simp_all

lemma step_signal:
  assumes "loop_inv c s" and "exited s = None"
  shows "step c (Signal sg) s = cleanup None s"
  using assms by (cases sg) (simp_all add: inv_vars(6) emit_single)

lemma step_stdout:
  assumes "loop_inv c s" and "exited s = None"
  shows "step c (StdoutLine h chunk) s =
           (if h = 0 then run_line_listener c VscodeLine (trim chunk) chunk s
            else if h = 2 then run_line_listener c TscLine (trim chunk) chunk s
            else if h = 3 \<and> truthy (PLUGIN_DIR c)
              then run_line_listener c PluginLine (trim chunk) chunk s
            else s)"
proof -
  have n: "3 \<le> length (procs s)"
    using inv_vars(5) [OF assms(1)] three_le_nwatchers [of c] by simp
  have p: "truthy (PLUGIN_DIR c) \<Longrightarrow> 3 < length (procs s)"
    using inv_vars(5) [OF assms(1)] by (simp add: nwatchers_def)
  show ?thesis
    using assms(2) n p
    by (simp add: inv_listeners(1) [OF assms(1)] expected_stdout_def onLine_args_def emit_single
        del: run_line_listener.simps)
qed

lemma step_stderr:
  assumes "loop_inv c s" and "exited s = None"
  shows "step c (StderrData h d) s = (if h < nwatchers c then stderr_write d s else s)"
  using assms(2) inv_vars(5) [OF assms(1)]
  by (simp add: inv_listeners(2) [OF assms(1)] expected_stderr_def emit_single)

lemma step_exit:
  assumes "loop_inv c s" and "exited s = None"
  shows "step c (ChildExit h code) s =
           (if h < length (procs s) then run_exit_listener (hd (expected_exit c h)) code s else s)"
  using assms(2)
  by (simp add: inv_listeners(3) [OF assms] expected_exit_def emit_single
      del: run_exit_listener.simps)

lemma inv_run_line_listener:
  assumes "loop_inv c s" and "l = PluginLine \<Longrightarrow> truthy (PLUGIN_DIR c)"
  shows "loop_inv c (run_line_listener c l line original s)"
proof (cases l)
  case VscodeLine
  have "loop_inv c (console_log [''[vscode]'', original] s)"
    by (intro inv_console_log assms(1) ok_stdout_tags)
  then show ?thesis using VscodeLine
    by (simp add: inv_restartServer Let_def del: unwords.simps)
next
  case TscLine
  have "loop_inv c (console_log [''[tsc]'', original] s)"
    by (intro inv_console_log assms(1) ok_stdout_tags)
  then show ?thesis using TscLine assms(1)
    by (simp add: inv_restartServer Let_def del: unwords.simps)
next
  case PluginLine
  then have "truthy (PLUGIN_DIR c)" by (rule assms(2))
  then have "loop_inv c (console_log [''[plugin]'', original] s)"
    by (intro inv_console_log assms(1) ok_stdout_plugin)
  then show ?thesis using PluginLine assms(1)
    by (simp add: inv_restartServer Let_def del: unwords.simps)
qed

lemma inv_watcher_terminated:
  assumes "loop_inv c s" and "ok_stdout c m"
  shows "loop_inv c (cleanup code (log m False s))"
  by (intro inv_cleanup inv_log assms)

lemma inv_run_exit_listener:
  assumes "loop_inv c s"
  shows "loop_inv c (run_exit_listener l code s)"
proof (cases l)
  case (ServerExited h)
  have "loop_inv c (console_log [''[server] process '' @ show_nat (pid_of h s) @ '' exited''] s)"
    by (intro inv_console_log assms ok_stdout_tags)
  then show ?thesis using ServerExited by (simp del: unwords.simps)
qed (simp_all add: inv_watcher_terminated assms ok_stdout_literals)

lemma inv_step:
  assumes "loop_inv c s"
  shows "loop_inv c (step c ev s)"
proof (cases "exited s = None")
  case False
  then show ?thesis using assms by (simp add: step_exited)
next
  case True
  show ?thesis
  proof (cases ev)
    case (Signal sg)
    then show ?thesis using assms True by (simp add: step_signal inv_cleanup del: step.simps)
  next
    case (ChildExit h code)
    then show ?thesis using assms True
      by (simp add: step_exit inv_run_exit_listener del: step.simps)
  next
    case (StderrData h d)
    then show ?thesis using assms True
      by (simp add: step_stderr inv_stderr_write del: step.simps)
  next
    case (StdoutLine h chunk)
    have v: "loop_inv c (run_line_listener c VscodeLine x y s)" for x y
      using assms by (intro inv_run_line_listener) simp_all
    have t: "loop_inv c (run_line_listener c TscLine x y s)" for x y
      using assms by (intro inv_run_line_listener) simp_all
    have p: "truthy (PLUGIN_DIR c) \<Longrightarrow> loop_inv c (run_line_listener c PluginLine x y s)" for x y
      using assms by (intro inv_run_line_listener) simp_all
    show ?thesis using StdoutLine assms True v t p
      by (simp add: step_stdout del: step.simps run_line_listener.simps)
  qed
qed

lemma inv_run: "loop_inv c s \<Longrightarrow> loop_inv c (run c evs s)"
  unfolding run_def by (induction evs arbitrary: s) (simp_all add: inv_step del: step.simps)

lemma reachable_inv: "loop_inv c (run c evs (watch c))"
  by (rule inv_run [OF inv_watch])

subsection \<open>Observations\<close>

lemma or_zero_exit_code: "or_zero code = exit_code_of code"
  by (simp add: or_zero_def exit_code_of_def split: option.splits)

lemma restarts_restartServer: "restarts (restartServer c s) = Suc (restarts s)"
  by (simp add: restarts_def restartServer_effects split: option.splits)

lemma restarts_console_log [simp]: "restarts (console_log as s) = restarts s"
  by (simp add: restarts_def)

lemma blank_no_trigger:
  "\<not> includes_str [] ''Finished compilation''"
  "\<not> includes_str [] ''Watching for file changes''"
  by simp_all

lemma restarts_line_listener:
  "restarts (run_line_listener c l line original s) =
     restarts s +
       (if includes_str line (case l of VscodeLine \<Rightarrow> ''Finished compilation''
                                | TscLine \<Rightarrow> ''Watching for file changes''
                                | PluginLine \<Rightarrow> ''Watching for file changes'')
        then 1 else 0)"
  by (cases l) (simp_all add: Let_def restarts_restartServer del: unwords.simps includes_str.simps)

lemma stdout_writes_simps [simp]:
  "stdout_writes [] = []"
  "stdout_writes (e # es) = stdout_of e @ stdout_writes es"
  "stdout_writes (xs @ ys) = stdout_writes xs @ stdout_writes ys"
  by (simp_all add: stdout_writes_def)

lemma new_effects_self [simp]: "new_effects s s = []"
  by (simp add: new_effects_def)

lemma new_effects_console_log [simp]:
  "new_effects s (console_log as s) = [StdoutWrite (unwords as @ nl)]"
  by (simp add: new_effects_def)

lemma new_effects_restartServer:
  "effects s' = effects s @ es \<Longrightarrow>
   new_effects s (restartServer c s') =
     es @ (case server s' of Some old \<Rightarrow> [Kill old] | None \<Rightarrow> [])
       @ [Fork (length (procs s')) (path_join c (rootPath c) ''out/node/entry.js'') (drop 2 (argv c)),
          StdoutWrite (spawned_line c s')]"
  by (simp add: new_effects_def restartServer_effects spawned_line_def)

lemma stdout_writes_line_listener:
  "stdout_writes (new_effects s (run_line_listener c l line original s)) =
     (case l of
        VscodeLine \<Rightarrow> [''[vscode] '' @ original @ nl]
      | TscLine \<Rightarrow> (if line = [] then [] else [''[tsc] '' @ original @ nl])
      | PluginLine \<Rightarrow> (if line = [] then [] else [''[plugin] '' @ original @ nl]))
     @ (if includes_str line (case l of VscodeLine \<Rightarrow> ''Finished compilation''
                                | TscLine \<Rightarrow> ''Watching for file changes''
                                | PluginLine \<Rightarrow> ''Watching for file changes'')
        then [spawned_line c s] else [])"
proof -
  have r: "stdout_writes (new_effects s (restartServer c s')) =
             stdout_writes es @ [spawned_line c s]"
    if "effects s' = effects s @ es" and "procs s' = procs s" for s' es
    using that
    by (simp add: new_effects_restartServer [OF that(1)] spawned_line_def split: option.splits)
  have r0: "stdout_writes (new_effects s (restartServer c s)) = [spawned_line c s]"
    using r [of s "[]"] by simp
  show ?thesis
    by (cases l) (simp_all add: Let_def r r0 del: includes_str.simps)
qed

lemma inv_effects_ok:
  assumes "loop_inv c s" and "e \<in> set (effects s)"
  shows "effect_ok c (length (procs s)) e"
  using assms by (simp add: loop_inv_def)

lemma inv_pid:
  assumes "loop_inv c s" and "h < length (procs s)"
  shows "pid_of h s = os_pid c h"
  using assms by (simp add: loop_inv_def proc_ok_def pid_of_def)

subsection \<open>The concrete runs\<close>

lemma example_state_eq:
  "example_state =
    \<lparr>procs =
       [\<lparr>pid = 1000, exit_listeners = [VscodeTerminated], stdout_listeners = [VscodeLine],
          stderr_listeners = [StderrForward], kills = 0\<rparr>,
        \<lparr>pid = 1001, exit_listeners = [WebExtTerminated], stdout_listeners = [],
          stderr_listeners = [StderrForward], kills = 0\<rparr>,
        \<lparr>pid = 1002, exit_listeners = [TscTerminated], stdout_listeners = [TscLine],
          stderr_listeners = [StderrForward], kills = 0\<rparr>,
        \<lparr>pid = 1003, exit_listeners = [ServerExited 3], stdout_listeners = [],
          stderr_listeners = [], kills = 0\<rparr>],
     server = Some 3, vscode = 0, vscodeWebExtensions = 1, tsc = 2, plugin = None,
     signal_listeners = [SIGINT, SIGTERM],
     effects =
       [Spawn 0 ''yarn'' [''watch''] ''/repo/vendor/modules/code-oss-dev'',
        Spawn 1 ''yarn'' [''watch-web''] ''/repo/vendor/modules/code-oss-dev'',
        Spawn 2 ''tsc'' [''--watch'', ''--pretty'', ''--preserveWatchOutput''] ''/repo'',
        StdoutWrite (''[vscode] Finished compilation'' @ nl),
        Fork 3 ''/repo/out/node/entry.js'' [''--port'', ''8080''],
        StdoutWrite (''[server] spawned process 1003'' @ nl)],
     exited = None\<rparr>"
  by code_simp

lemma example_plugin_state_eq:
  "example_plugin_state =
    \<lparr>procs =
       [\<lparr>pid = 2000, exit_listeners = [VscodeTerminated], stdout_listeners = [VscodeLine],
          stderr_listeners = [StderrForward], kills = 0\<rparr>,
        \<lparr>pid = 2001, exit_listeners = [WebExtTerminated], stdout_listeners = [],
          stderr_listeners = [StderrForward], kills = 0\<rparr>,
        \<lparr>pid = 2002, exit_listeners = [TscTerminated], stdout_listeners = [TscLine],
          stderr_listeners = [StderrForward], kills = 0\<rparr>,
        \<lparr>pid = 2003, exit_listeners = [PluginTerminated], stdout_listeners = [PluginLine],
          stderr_listeners = [StderrForward], kills = 0\<rparr>,
        \<lparr>pid = 2004, exit_listeners = [ServerExited 4], stdout_listeners = [],
          stderr_listeners = [], kills = 0\<rparr>],
     server = Some 4, vscode = 0, vscodeWebExtensions = 1, tsc = 2, plugin = Some 3,
     signal_listeners = [SIGINT, SIGTERM],
     effects =
       [Spawn 0 ''yarn'' [''watch''] ''/repo/vendor/modules/code-oss-dev'',
        Spawn 1 ''yarn'' [''watch-web''] ''/repo/vendor/modules/code-oss-dev'',
        Spawn 2 ''tsc'' [''--watch'', ''--pretty'', ''--preserveWatchOutput''] ''/repo'',
        Spawn 3 ''yarn'' [''build'', ''--watch''] ''/plugin'',
        StdoutWrite (''[plugin] Watching for file changes'' @ nl),
        Fork 4 ''/repo/out/node/entry.js'' [],
        StdoutWrite (''[server] spawned process 2004'' @ nl)],
     exited = None\<rparr>"
  by code_simp

lemma example_state_effects:
  "effects example_state =
       [Spawn 0 ''yarn'' [''watch''] ''/repo/vendor/modules/code-oss-dev'',
        Spawn 1 ''yarn'' [''watch-web''] ''/repo/vendor/modules/code-oss-dev'',
        Spawn 2 ''tsc'' [''--watch'', ''--pretty'', ''--preserveWatchOutput''] ''/repo'',
        StdoutWrite (''[vscode] Finished compilation'' @ nl),
        Fork 3 ''/repo/out/node/entry.js'' [''--port'', ''8080''],
        StdoutWrite (''[server] spawned process 1003'' @ nl)]"
  by (simp add: example_state_eq)

lemma example_state_running: "exited example_state = None"
  by (simp add: example_state_eq)

lemma example_plugin_state_running: "exited example_plugin_state = None"
  by (simp add: example_plugin_state_eq)

section \<open>The specified properties\<close>

text \<open>
  C1. An invocation of \<open>restartServer\<close> adds to the trace, in this order: the
  termination request to the occupant of the server slot, if there is one; the fork of the
  new server; the log line with its process identifier. Kill and fork are two steps of one
  synchronous body. Afterwards the slot holds the handle of the process just forked, which
  did not exist in the store before.
\<close>

theorem restartServer_kill_then_fork:
  "effects (restartServer c s) =
     effects s @ (case server s of Some old \<Rightarrow> [Kill old] | None \<Rightarrow> [])
       @ [Fork (length (procs s)) (path_join c (rootPath c) ''out/node/entry.js'') (drop 2 (argv c)),
          StdoutWrite (''[server] spawned process '' @ show_nat (os_pid c (length (procs s))) @ nl)]
   \<and> server (restartServer c s) = Some (length (procs s))
   \<and> length (procs (restartServer c s)) = Suc (length (procs s))"
  by (simp add: restartServer_effects)

text \<open>
  C2, in the form that holds. \<open>cleanup\<close> adds to the trace one kill step per target,
  in the fixed order of \<open>cleanup_targets\<close> (the three watchers always, the plugin and the
  server when there is one); each step logs its message, then calls \<open>removeAllListeners\<close>
  on the child-process object, then requests its termination. The last message is "killing
  watch", and the last effect is the exit of the supervisor. Afterwards no target has a
  listener left on its child-process object, while the listeners on the stdout and stderr
  streams of every process (the Line Reader callbacks and the stderr forwarders) are the
  ones it had before.
\<close>

theorem cleanup_detaches_handle_listeners:
  "effects (cleanup code s) =
     effects s @ concat (map kill_step (cleanup_targets s))
       @ [StdoutWrite ''killing watch'', StdoutWrite nl, ProcessExit (or_zero code)]
   \<and> (\<forall>t \<in> set (cleanup_targets s). listeners_of exit_listeners (snd t) (cleanup code s) = [])
   \<and> listeners_of stdout_listeners h (cleanup code s) = listeners_of stdout_listeners h s
   \<and> listeners_of stderr_listeners h (cleanup code s) = listeners_of stderr_listeners h s
   \<and> exited (cleanup code s) = Some (or_zero code)"
proof (intro conjI ballI)
  show "effects (cleanup code s) =
     effects s @ concat (map kill_step (cleanup_targets s))
       @ [StdoutWrite ''killing watch'', StdoutWrite nl, ProcessExit (or_zero code)]"
    by (rule cleanup_effects)
next
  fix t assume t: "t \<in> set (cleanup_targets s)"
  show "listeners_of exit_listeners (snd t) (cleanup code s) = []"
  proof (cases "snd t < length (procs s)")
    case True
    moreover have "snd t \<in> snd ` set (cleanup_targets s)" using t by (rule imageI)
    ultimately show ?thesis by (simp add: listeners_of_def cleanup_nth_sel(2))
  next
    case False
    then show ?thesis by (simp add: listeners_of_def)
  qed
next
  show "listeners_of stdout_listeners h (cleanup code s) = listeners_of stdout_listeners h s"
    by (simp add: listeners_of_def cleanup_nth_sel(3))
next
  show "listeners_of stderr_listeners h (cleanup code s) = listeners_of stderr_listeners h s"
    by (simp add: listeners_of_def cleanup_nth_sel(4))
next
  show "exited (cleanup code s) = Some (or_zero code)" by simp
qed

text \<open>
  In \<open>example_state\<close> there is a server; \<open>cleanup\<close> detaches its exit listener and
  leaves the stderr forwarder of the type checker in place.
\<close>

theorem cleanup_detaches_handle_listeners_witness:
  "(''killing server'', 3) \<in> set (cleanup_targets example_state)
   \<and> listeners_of exit_listeners 3 example_state = [ServerExited 3]
   \<and> listeners_of exit_listeners 3 (cleanup None example_state) = []
   \<and> listeners_of stderr_listeners 2 (cleanup None example_state) = [StderrForward]"
proof -
  have m: "(''killing server'', 3) \<in> set (cleanup_targets example_state)"
    by (simp add: example_state_eq cleanup_targets_def)
  have b: "listeners_of exit_listeners 3 example_state = [ServerExited 3]"
    by (simp add: example_state_eq listeners_of_def)
  have d: "listeners_of stderr_listeners 2 example_state = [StderrForward]"
    by (simp add: example_state_eq listeners_of_def)
  note t = cleanup_detaches_handle_listeners [of None example_state 2]
  from t m
  have "listeners_of exit_listeners (snd (''killing server'', 3::nat)) (cleanup None example_state) = []"
    by blast
  then have c: "listeners_of exit_listeners 3 (cleanup None example_state) = []"
    by (simp only: snd_conv)
  from t have "listeners_of stderr_listeners 2 (cleanup None example_state) =
      listeners_of stderr_listeners 2 example_state" by blast
  with d have e: "listeners_of stderr_listeners 2 (cleanup None example_state) = [StderrForward]"
    by simp
  from m b c e show ?thesis by blast
qed

text \<open>
  C2 as stated fails: after an interrupt in \<open>example_state\<close>, \<open>removeAllListeners\<close>
  has been called on the four processes and the supervisor has exited, and the watchers
  still hold their Line Reader callbacks and stderr forwarders. Not all the listeners of
  a subprocess are detached.
\<close>

theorem cleanup_keeps_stream_listeners_counterexample:
  "exited example_state = None
   \<and> exited (step example_config (Signal SIGINT) example_state) = Some 0
   \<and> filter is_RemoveAllListeners (effects (step example_config (Signal SIGINT) example_state)) =
       [RemoveAllListeners 0, RemoveAllListeners 1, RemoveAllListeners 2, RemoveAllListeners 3]
   \<and> listeners_of stdout_listeners 0 (step example_config (Signal SIGINT) example_state) = [VscodeLine]
   \<and> listeners_of stderr_listeners 0 (step example_config (Signal SIGINT) example_state) = [StderrForward]
   \<and> listeners_of stderr_listeners 1 (step example_config (Signal SIGINT) example_state) = [StderrForward]
   \<and> listeners_of stdout_listeners 2 (step example_config (Signal SIGINT) example_state) = [TscLine]
   \<and> listeners_of stderr_listeners 2 (step example_config (Signal SIGINT) example_state) \<noteq> []"
  unfolding example_state_eq by code_simp

text \<open>
  C3. While the supervisor runs, a SIGINT or SIGTERM makes it exit with code 0, and the exit
  of a watcher (the editor-source, web-extension or type-checker watcher, or the plugin
  watcher when there is one) makes it exit with the code of the exit event, or with 0 when
  the event carries none. The exit is the last effect of the step.
\<close>

theorem supervisor_exit_code:
  assumes "exited (run c evs (watch c)) = None"
  shows "exited (step c (Signal sg) (run c evs (watch c))) = Some 0
    \<and> last (effects (step c (Signal sg) (run c evs (watch c)))) = ProcessExit 0
    \<and> (\<forall>h \<in> set (watcher_handles (run c evs (watch c))).
          exited (step c (ChildExit h code) (run c evs (watch c))) = Some (exit_code_of code)
          \<and> last (effects (step c (ChildExit h code) (run c evs (watch c))))
              = ProcessExit (exit_code_of code))"
proof -
  define s where "s = run c evs (watch c)"
  have i: "loop_inv c s" unfolding s_def by (rule reachable_inv)
  have r: "exited s = None" using assms by (simp add: s_def)
  have sig: "step c (Signal sg) s = cleanup None s" by (rule step_signal [OF i r])
  have w: "exited (step c (ChildExit h code) s) = Some (exit_code_of code)
      \<and> last (effects (step c (ChildExit h code) s)) = ProcessExit (exit_code_of code)"
    if "h \<in> set (watcher_handles s)" for h
  proof -
    from that have h: "h = 0 \<or> h = 1 \<or> h = 2 \<or> (h = 3 \<and> truthy (PLUGIN_DIR c))"
      by (auto simp: watcher_handles_def inv_vars [OF i] split: if_splits)
    then have len: "h < length (procs s)"
      using inv_vars(5) [OF i] by (auto simp: nwatchers_def split: if_splits)
    from h have "hd (expected_exit c h) \<in> {VscodeTerminated, WebExtTerminated, TscTerminated,
        PluginTerminated}"
      by (auto simp: expected_exit_def)
    then show ?thesis
      using len
      by (auto simp add: step_exit [OF i r] cleanup_effects or_zero_exit_code simp del: step.simps)
  qed
  show ?thesis
    unfolding s_def [symmetric]
    using w by (simp add: sig cleanup_effects or_zero_def del: step.simps)
qed

text \<open>
  After one restart: an interrupt gives exit code 0, and the type checker exiting with
  code 2 gives exit code 2.
\<close>

theorem supervisor_exit_code_witness:
  "exited example_state = None
   \<and> exited (step example_config (Signal SIGINT) example_state) = Some 0
   \<and> 2 \<in> set (watcher_handles example_state)
   \<and> exited (step example_config (ChildExit 2 (Some 2)) example_state) = Some 2"
proof -
  have m: "2 \<in> set (watcher_handles example_state)"
    by (simp add: example_state_eq watcher_handles_def)
  note t = supervisor_exit_code [of example_config "[StdoutLine 0 ''Finished compilation'']",
      folded example_state_def, OF example_state_running]
  from t have "exited (step example_config (Signal SIGINT) example_state) = Some 0" by blast
  moreover from t m
  have "exited (step example_config (ChildExit 2 (Some 2)) example_state) = Some (exit_code_of (Some 2))"
    by blast
  ultimately show ?thesis using m example_state_running by (simp add: exit_code_of_def)
qed

text \<open>
  C4. While the supervisor runs, a line of the editor-source watcher forks a server exactly
  when "Finished compilation" occurs in the trimmed line; a line of the type-checker
  watcher, or of the plugin watcher when there is one, exactly when "Watching for file
  changes" occurs in the trimmed line. A line that is blank once trimmed never forks a
  server, whatever process it comes from.
\<close>

theorem restart_iff_phrase:
  fixes c evs
  defines "s \<equiv> run c evs (watch c)"
  assumes "exited s = None"
  shows "restarts (step c (StdoutLine (vscode s) chunk) s) =
           restarts s + (if (\<exists>p q. trim chunk = p @ ''Finished compilation'' @ q) then 1 else 0)
    \<and> restarts (step c (StdoutLine (tsc s) chunk) s) =
           restarts s + (if (\<exists>p q. trim chunk = p @ ''Watching for file changes'' @ q) then 1 else 0)
    \<and> (\<forall>h \<in> set_option (plugin s). restarts (step c (StdoutLine h chunk) s) =
           restarts s + (if (\<exists>p q. trim chunk = p @ ''Watching for file changes'' @ q) then 1 else 0))
    \<and> (trim chunk = [] \<longrightarrow> (\<forall>h. restarts (step c (StdoutLine h chunk) s) = restarts s))"
proof -
  have i: "loop_inv c s" unfolding s_def by (rule reachable_inv)
  note st = step_stdout [OF i assms(2)]
  show ?thesis
    unfolding includes_str_iff [symmetric]
    by (simp add: st inv_vars [OF i] restarts_line_listener blank_no_trigger
        del: step.simps run_line_listener.simps includes_str.simps)
qed

text \<open>
  With a plugin watcher: blank lines restart nothing; a line with the phrase of its watcher
  restarts the server once, also with text around the phrase; a line without it, or with
  the phrase of another watcher, restarts nothing.
\<close>

theorem restart_iff_phrase_witness:
  "exited example_plugin_state = None
   \<and> 3 \<in> set_option (plugin example_plugin_state)
   \<and> trim ''   '' = []
   \<and> restarts (step example_plugin_config (StdoutLine 3 ''   '') example_plugin_state) =
       restarts example_plugin_state
   \<and> restarts (step example_plugin_config (StdoutLine 2 ''   '') example_plugin_state) =
       restarts example_plugin_state
   \<and> restarts (step example_plugin_config
         (StdoutLine 0 ''  Finished compilation of editor core '') example_plugin_state) =
       restarts example_plugin_state + 1
   \<and> restarts (step example_plugin_config
         (StdoutLine 0 ''Starting compilation'') example_plugin_state) =
       restarts example_plugin_state
   \<and> restarts (step example_plugin_config
         (StdoutLine 2 ''Found 0 errors. Watching for file changes.'') example_plugin_state) =
       restarts example_plugin_state + 1
   \<and> restarts (step example_plugin_config
         (StdoutLine 2 ''Finished compilation'') example_plugin_state) =
       restarts example_plugin_state
   \<and> restarts (step example_plugin_config
         (StdoutLine 3 ''Watching for file changes'') example_plugin_state) =
       restarts example_plugin_state + 1"
proof -
  note r = example_plugin_state_running
  have p: "3 \<in> set_option (plugin example_plugin_state)"
    by (simp add: example_plugin_state_eq)
  have v: "vscode example_plugin_state = 0" and t: "tsc example_plugin_state = 2"
    by (simp_all add: example_plugin_state_eq)
  have b: "trim ''   '' = []" by code_simp
  note th = restart_iff_phrase [of example_plugin_config
      "[StdoutLine 3 ''Watching for file changes'']", folded example_plugin_state_def, OF r]
  from th [of "''   ''"] b
  have blank: "\<forall>h. restarts (step example_plugin_config (StdoutLine h ''   '') example_plugin_state) =
       restarts example_plugin_state" by blast
  have y1: "\<exists>p q. trim ''  Finished compilation of editor core '' = p @ ''Finished compilation'' @ q"
    unfolding includes_str_iff [symmetric] by code_simp
  have n1: "\<not> (\<exists>p q. trim ''Starting compilation'' = p @ ''Finished compilation'' @ q)"
    unfolding includes_str_iff [symmetric] by code_simp
  have y2: "\<exists>p q. trim ''Found 0 errors. Watching for file changes.'' =
      p @ ''Watching for file changes'' @ q"
    unfolding includes_str_iff [symmetric] by code_simp
  have n2: "\<not> (\<exists>p q. trim ''Finished compilation'' = p @ ''Watching for file changes'' @ q)"
    unfolding includes_str_iff [symmetric] by code_simp
  have y3: "\<exists>p q. trim ''Watching for file changes'' = p @ ''Watching for file changes'' @ q"
    unfolding includes_str_iff [symmetric] by code_simp
  have a1: "restarts (step example_plugin_config
         (StdoutLine 0 ''  Finished compilation of editor core '') example_plugin_state) =
       restarts example_plugin_state + 1"
    using th [of "''  Finished compilation of editor core ''"] y1 by (simp only: v if_True, blast?)
  have a2: "restarts (step example_plugin_config
         (StdoutLine 0 ''Starting compilation'') example_plugin_state) =
       restarts example_plugin_state"
    using th [of "''Starting compilation''"] n1 by (simp only: v if_False add_0_right, blast?)
  have a3: "restarts (step example_plugin_config
         (StdoutLine 2 ''Found 0 errors. Watching for file changes.'') example_plugin_state) =
       restarts example_plugin_state + 1"
    using th [of "''Found 0 errors. Watching for file changes.''"] y2 by (simp only: t if_True, blast?)
  have a4: "restarts (step example_plugin_config
         (StdoutLine 2 ''Finished compilation'') example_plugin_state) =
       restarts example_plugin_state"
    using th [of "''Finished compilation''"] n2 by (simp only: t if_False add_0_right, blast?)
  have a5: "restarts (step example_plugin_config
         (StdoutLine 3 ''Watching for file changes'') example_plugin_state) =
       restarts example_plugin_state + 1"
    using th [of "''Watching for file changes''"] y3 p by (simp only: if_True, blast?)
  from r p b blank a1 a2 a3 a4 a5 show ?thesis by blast
qed

text \<open>
  C5. While the supervisor runs, what a line of a watcher writes to standard output is: the
  echo, made of the tag of the watcher, a space, the line as received (not trimmed) and a
  newline; then, if the line triggers a restart, the log line of the new server. The
  editor-source watcher echoes every line; the type-checker and the plugin watcher echo a
  line unless it is blank once trimmed, and a blank line of the type checker changes
  nothing at all.
\<close>

theorem line_echo:
  fixes c evs
  defines "s \<equiv> run c evs (watch c)"
  assumes "exited s = None"
  shows "stdout_writes (new_effects s (step c (StdoutLine (vscode s) chunk) s)) =
           [''[vscode] '' @ chunk @ nl]
           @ (if includes_str (trim chunk) ''Finished compilation'' then [spawned_line c s] else [])
    \<and> stdout_writes (new_effects s (step c (StdoutLine (tsc s) chunk) s)) =
           (if trim chunk = [] then [] else [''[tsc] '' @ chunk @ nl])
           @ (if includes_str (trim chunk) ''Watching for file changes'' then [spawned_line c s] else [])
    \<and> (\<forall>p \<in> set_option (plugin s).
          stdout_writes (new_effects s (step c (StdoutLine p chunk) s)) =
           (if trim chunk = [] then [] else [''[plugin] '' @ chunk @ nl])
           @ (if includes_str (trim chunk) ''Watching for file changes'' then [spawned_line c s] else []))
    \<and> (trim chunk = [] \<longrightarrow> step c (StdoutLine (tsc s) chunk) s = s)"
proof -
  have i: "loop_inv c s" unfolding s_def by (rule reachable_inv)
  note st = step_stdout [OF i assms(2)]
  have blank: "run_line_listener c TscLine [] chunk s = s"
    by simp
  show ?thesis
    by (simp add: st inv_vars [OF i] stdout_writes_line_listener blank blank_no_trigger
        del: step.simps run_line_listener.simps includes_str.simps)
qed

text \<open>With a plugin watcher: a line of three spaces from it or from the type checker writes nothing.\<close>

theorem line_echo_witness:
  "exited example_plugin_state = None
   \<and> 3 \<in> set_option (plugin example_plugin_state)
   \<and> trim ''   '' = []
   \<and> stdout_writes (new_effects example_plugin_state
        (step example_plugin_config (StdoutLine 3 ''   '') example_plugin_state)) = []
   \<and> step example_plugin_config (StdoutLine (tsc example_plugin_state) ''   '') example_plugin_state =
       example_plugin_state"
proof -
  have p: "3 \<in> set_option (plugin example_plugin_state)"
    by (simp add: example_plugin_state_eq)
  have b: "trim ''   '' = []" by code_simp
  have n: "\<not> includes_str [] ''Watching for file changes''" by simp
  note t = line_echo [of example_plugin_config "[StdoutLine 3 ''Watching for file changes'']"
      "''   ''", folded example_plugin_state_def, OF example_plugin_state_running]
  from t p have "stdout_writes (new_effects example_plugin_state
        (step example_plugin_config (StdoutLine 3 ''   '') example_plugin_state)) =
      (if trim ''   '' = [] then [] else [''[plugin] '' @ ''   '' @ nl])
      @ (if includes_str (trim ''   '') ''Watching for file changes''
         then [spawned_line example_plugin_config example_plugin_state] else [])"
    by blast
  then have e: "stdout_writes (new_effects example_plugin_state
        (step example_plugin_config (StdoutLine 3 ''   '') example_plugin_state)) = []"
    using n by (simp only: b if_True if_False append_Nil simp_thms)
  from t b have "step example_plugin_config (StdoutLine (tsc example_plugin_state) ''   '')
      example_plugin_state = example_plugin_state" by blast
  then show ?thesis using p b e example_plugin_state_running by blast
qed

text \<open>
  C6, in the form that holds. \<open>restartServer\<close> removes no listener: the exit
  listeners of every process already in the store, the replaced server among them, are the
  same before and after, and the new process carries its own exit listener; the trace gains
  no \<open>removeAllListeners\<close>, only the termination request to the replaced process, the
  fork and the log line. What stops pointing at the replaced process is the server slot.
\<close>

theorem restartServer_keeps_listeners:
  "listeners_of exit_listeners h (restartServer c s) =
     (if h = length (procs s) then [ServerExited h] else listeners_of exit_listeners h s)
   \<and> filter is_RemoveAllListeners (effects (restartServer c s)) =
       filter is_RemoveAllListeners (effects s)
   \<and> new_effects s (restartServer c s) =
       (case server s of Some old \<Rightarrow> [Kill old] | None \<Rightarrow> [])
       @ [Fork (length (procs s)) (path_join c (rootPath c) ''out/node/entry.js'') (drop 2 (argv c)),
          StdoutWrite (spawned_line c s)]
   \<and> server (restartServer c s) = Some (length (procs s))"
proof -
  have "listeners_of exit_listeners h (restartServer c s) =
     (if h = length (procs s) then [ServerExited h] else listeners_of exit_listeners h s)"
  proof (cases "h < length (procs s)")
    case True
    then show ?thesis by (simp add: listeners_of_def restartServer_old)
  next
    case False
    then show ?thesis by (auto simp: listeners_of_def restartServer_new)
  qed
  moreover have "new_effects s (restartServer c s) =
       (case server s of Some old \<Rightarrow> [Kill old] | None \<Rightarrow> [])
       @ [Fork (length (procs s)) (path_join c (rootPath c) ''out/node/entry.js'') (drop 2 (argv c)),
          StdoutWrite (spawned_line c s)]"
    using new_effects_restartServer [of s s "[]" c] by simp
  ultimately show ?thesis
    by (simp add: restartServer_effects split: option.splits)
qed

text \<open>
  C6 as stated fails: in \<open>example_state\<close> the slot holds process 3 with its exit
  listener; after a restart the slot holds process 4, and the exit listener of process 3 is
  still registered, no \<open>removeAllListeners\<close> having been called.
\<close>

theorem restartServer_removes_listeners_counterexample:
  "server example_state = Some 3
   \<and> listeners_of exit_listeners 3 example_state = [ServerExited 3]
   \<and> server (restartServer example_config example_state) = Some 4
   \<and> filter is_RemoveAllListeners (effects (restartServer example_config example_state)) = []
   \<and> listeners_of exit_listeners 3 (restartServer example_config example_state) = [ServerExited 3]
   \<and> listeners_of exit_listeners 3 (restartServer example_config example_state) \<noteq> []"
  unfolding example_state_eq by code_simp

text \<open>
  C7. When \<open>PLUGIN_DIR\<close> is unset, in every state the supervisor reaches: the plugin
  variable is empty; the processes spawned are the three built-in watchers and no other;
  no write to standard output starts with "[plugin]" or is the message "killing plugin";
  and \<open>cleanup\<close> has no plugin step among its targets. (\<open>cleanup\<close> has no failing
  branch: it is a total function of the state.)
\<close>

theorem no_plugin_without_PLUGIN_DIR:
  fixes c evs
  defines "s \<equiv> run c evs (watch c)"
  assumes "PLUGIN_DIR c = None"
  shows "plugin s = None
    \<and> filter is_Spawn (effects s) =
         [Spawn 0 ''yarn'' [''watch''] (vscodeSourcePath c),
          Spawn 1 ''yarn'' [''watch-web''] (vscodeSourcePath c),
          Spawn 2 ''tsc'' [''--watch'', ''--pretty'', ''--preserveWatchOutput''] (rootPath c)]
    \<and> (\<forall>x \<in> set (stdout_writes (effects s)). \<not> tagged ''[plugin]'' x \<and> x \<noteq> ''killing plugin'')
    \<and> ''killing plugin'' \<notin> fst ` set (cleanup_targets s)"
proof -
  have i: "loop_inv c s" unfolding s_def by (rule reachable_inv)
  have nt: "\<not> truthy (PLUGIN_DIR c)" using assms(2) by (simp add: truthy_def)
  have pl: "plugin s = None" using nt by (simp add: inv_vars(4) [OF i])
  have sp: "filter is_Spawn (effects s) = effects (watch c)"
    using i by (simp add: loop_inv_def)
  have wr: "\<not> tagged ''[plugin]'' x \<and> x \<noteq> ''killing plugin''"
    if "x \<in> set (stdout_writes (effects s))" for x
  proof -
    from that obtain e where e: "e \<in> set (effects s)" and x: "x \<in> set (stdout_of e)"
      by (auto simp: stdout_writes_def)
    from x have "e = StdoutWrite x" by (cases e) simp_all
    with inv_effects_ok [OF i e] have "ok_stdout c x" by simp
    with nt show ?thesis by (simp add: ok_stdout_def)
  qed
  have ct: "''killing plugin'' \<notin> fst ` set (cleanup_targets s)"
    by (auto simp: cleanup_targets_def pl split: option.splits)
  show ?thesis
    using pl sp wr ct nt by (simp add: watch_effects)
qed

text \<open>\<open>example_config\<close> leaves \<open>PLUGIN_DIR\<close> unset.\<close>

theorem no_plugin_without_PLUGIN_DIR_witness:
  "PLUGIN_DIR example_config = None
   \<and> plugin example_state = None
   \<and> ''killing plugin'' \<notin> fst ` set (cleanup_targets example_state)"
proof -
  have h: "PLUGIN_DIR example_config = None" by (simp add: example_config_def)
  note t = no_plugin_without_PLUGIN_DIR [of example_config "[StdoutLine 0 ''Finished compilation'']",
      folded example_state_def, OF h]
  from t h show ?thesis by blast
qed

text \<open>
  C8. In every state the supervisor reaches, the exit of a process forked as a server does
  one thing while the supervisor runs: it logs the process identifier. The supervisor does
  not exit, the server slot keeps its value, and no server is forked.
\<close>

theorem server_exit_is_only_logged:
  fixes c evs
  defines "s \<equiv> run c evs (watch c)"
  assumes "Fork h p a \<in> set (effects s)"
  shows "step c (ChildExit h code) s =
           (if exited s = None
            then console_log [''[server] process '' @ show_nat (os_pid c h) @ '' exited''] s
            else s)
    \<and> exited (step c (ChildExit h code) s) = exited s
    \<and> server (step c (ChildExit h code) s) = server s
    \<and> restarts (step c (ChildExit h code) s) = restarts s"
proof -
  have i: "loop_inv c s" unfolding s_def by (rule reachable_inv)
  from inv_effects_ok [OF i assms(2)]
  have h: "nwatchers c \<le> h" "h < length (procs s)" by simp_all
  have eq: "step c (ChildExit h code) s =
           (if exited s = None
            then console_log [''[server] process '' @ show_nat (os_pid c h) @ '' exited''] s
            else s)"
  proof (cases "exited s = None")
    case True
    show ?thesis
      using True h
      by (simp add: step_exit [OF i True] expected_server(1) [OF h(1)] inv_pid [OF i h(2)]
          del: step.simps unwords.simps)
  next
    case False
    then show ?thesis by (simp add: step_exited del: step.simps)
  qed
  show ?thesis
    unfolding eq by simp
qed

text \<open>The server forked in \<open>example_state\<close> exits with code 1.\<close>

theorem server_exit_is_only_logged_witness:
  "Fork 3 ''/repo/out/node/entry.js'' [''--port'', ''8080''] \<in> set (effects example_state)
   \<and> exited (step example_config (ChildExit 3 (Some 1)) example_state) = exited example_state
   \<and> server (step example_config (ChildExit 3 (Some 1)) example_state) = server example_state
   \<and> restarts (step example_config (ChildExit 3 (Some 1)) example_state) = restarts example_state"
proof -
  have m: "Fork 3 ''/repo/out/node/entry.js'' [''--port'', ''8080''] \<in> set (effects example_state)"
    by (simp add: example_state_effects)
  note t = server_exit_is_only_logged [of 3 "''/repo/out/node/entry.js''" "[''--port'', ''8080'']"
      example_config "[StdoutLine 0 ''Finished compilation'']" "Some 1",
      folded example_state_def, OF m]
  from t m show ?thesis by blast
qed

text \<open>
  C9. Every server forked during a run receives \<open>process.argv.slice(2)\<close>: the arguments
  of the supervisor after the executable and the script, unchanged and in order.
\<close>

theorem argv_passthrough:
  assumes "Fork h p a \<in> set (effects (run c evs (watch c)))"
  shows "a = drop 2 (argv c)"
  using inv_effects_ok [OF reachable_inv assms] by simp

text \<open>Started as \<open>node watch.ts --port 8080\<close>, the supervisor forks the server with \<open>--port 8080\<close>.\<close>

theorem argv_passthrough_witness:
  "Fork 3 ''/repo/out/node/entry.js'' [''--port'', ''8080''] \<in> set (effects example_state)
   \<and> [''--port'', ''8080''] = drop 2 (argv example_config)"
proof -
  have m: "Fork 3 ''/repo/out/node/entry.js'' [''--port'', ''8080''] \<in> set (effects example_state)"
    by (simp add: example_state_effects)
  note t = argv_passthrough [of 3 "''/repo/out/node/entry.js''" "[''--port'', ''8080'']"
      example_config "[StdoutLine 0 ''Finished compilation'']", folded example_state_def, OF m]
  from t m show ?thesis by blast
qed

text \<open>
  C10. In every state the supervisor reaches, a line on the standard output of the
  web-extension watcher changes nothing: no echo, no match, no restart. While the
  supervisor runs, its stderr data is written to the supervisor's stderr, and its exit
  logs the message and runs \<open>cleanup\<close> with the code of the event.
\<close>

theorem web_extensions_stdout_ignored:
  fixes c evs
  defines "s \<equiv> run c evs (watch c)"
  shows "step c (StdoutLine (vscodeWebExtensions s) chunk) s = s
    \<and> step c (StderrData (vscodeWebExtensions s) d) s =
         (if exited s = None then stderr_write d s else s)
    \<and> step c (ChildExit (vscodeWebExtensions s) code) s =
         (if exited s = None
          then cleanup code (log ''vs code extension watcher terminated unexpectedly'' False s)
          else s)"
proof -
  have i: "loop_inv c s" unfolding s_def by (rule reachable_inv)
  have n: "1 < length (procs s)" "1 < nwatchers c"
    using inv_vars(5) [OF i] three_le_nwatchers [of c] by simp_all
  show ?thesis
  proof (cases "exited s = None")
    case True
    show ?thesis
      using n True
      by (simp add: inv_vars(2) [OF i] step_stdout [OF i True] step_stderr [OF i True]
          step_exit [OF i True] expected_exit_def del: step.simps)
  next
    case False
    then show ?thesis by (auto simp: step_exited simp del: step.simps)
  qed
qed

end
